theory Spec2Isabelle
  imports Complex_Main "HOL-Library.AList"
begin

section \<open>Python strings\<close>

text \<open>
  A Python \<open>str\<close> is a sequence of Unicode code points, so it is modelled as a list of
  natural numbers (one per code point) rather than as a list of bytes: \<open>str.strip()\<close>
  looks at code points, and the prompts of the checker are Cyrillic text.
  \<open>u\<close> turns an ASCII literal into such a string.
\<close>

type_synonym pystr = "nat list"

definition u :: "string \<Rightarrow> pystr" where
  "u s = map of_char s"

text \<open>
  \<open>str.isspace\<close> for one code point: the white space table of CPython
  (\<open>_PyUnicode_IsWhitespace\<close>), which is what \<open>str.strip()\<close> without arguments removes.
\<close>

definition is_space :: "nat \<Rightarrow> bool" where
  "is_space c \<longleftrightarrow>
     (9 \<le> c \<and> c \<le> 13) \<or> (28 \<le> c \<and> c \<le> 32) \<or> c = 133 \<or> c = 160 \<or> c = 5760 \<or>
     (8192 \<le> c \<and> c \<le> 8202) \<or> c = 8232 \<or> c = 8233 \<or> c = 8239 \<or> c = 8287 \<or>
     c = 12288"

definition lstrip :: "pystr \<Rightarrow> pystr" where
  "lstrip s = dropWhile is_space s"

definition rstrip :: "pystr \<Rightarrow> pystr" where
  "rstrip s = rev (dropWhile is_space (rev s))"

definition strip :: "pystr \<Rightarrow> pystr" where
  "strip s = rstrip (lstrip s)"

definition startswith :: "pystr \<Rightarrow> pystr \<Rightarrow> bool" where
  "startswith s p \<longleftrightarrow> take (length p) s = p"

definition endswith :: "pystr \<Rightarrow> pystr \<Rightarrow> bool" where
  "endswith s p \<longleftrightarrow> length p \<le> length s \<and> drop (length s - length p) s = p"

text \<open>\<open>p in s\<close> for two strings: \<open>p\<close> occurs in \<open>s\<close> as a contiguous run.\<close>

fun contains :: "pystr \<Rightarrow> pystr \<Rightarrow> bool" where
  "contains [] p = (p = [])"
| "contains (c # s) p = (startswith (c # s) p \<or> contains s p)"

section \<open>Cleaning the raw answer of the model\<close>

text \<open>
  \<open>FactConsistencyChecker._clean_json_response\<close> (the leading underscore is dropped,
  an Isabelle name starts with a letter). The slices \<open>response[7:]\<close>, \<open>response[3:]\<close> and
  \<open>response[:-3]\<close> are \<open>drop\<close> and \<open>take\<close>; the last one is only reached when the string
  ends with the three backquotes, so it has at least three code points.
\<close>

definition clean_json_response :: "pystr \<Rightarrow> pystr" where
  "clean_json_response response =
     (let r0 = strip response;
          r1 = (if startswith r0 (u ''```json'') then drop 7 r0
                else if startswith r0 (u ''```'') then drop 3 r0
                else r0);
          r2 = (if endswith r1 (u ''```'') then take (length r1 - 3) r1 else r1)
      in strip r2)"

text \<open>
  The two ways of fencing a response that the specification names, written from its
  words: the opening marker on a line of its own, the response, and the closing marker on a
  line of its own.
\<close>

definition fence_json :: "pystr \<Rightarrow> pystr" where
  "fence_json s = u ''```json'' @ [10] @ s @ [10] @ u ''```''"

definition fence_plain :: "pystr \<Rightarrow> pystr" where
  "fence_plain s = u ''```'' @ [10] @ s @ [10] @ u ''```''"

section \<open>The fixed texts of the checker\<close>

text \<open>
  The Russian messages and prompts of \<open>fact_checker.py\<close>, code point by code point,
  each with the line of the source and its meaning.
\<close>

text \<open>Line 177: the answer lacks required fields.\<close>

definition msg_missing_fields :: pystr where
  "msg_missing_fields =
     [1042, 32, 1086, 1090, 1074, 1077, 1090, 1077, 32, 1086, 1090, 1089, 1091, 1090,
      1089, 1090, 1074, 1091, 1102, 1090, 32, 1086, 1073, 1103, 1079, 1072, 1090, 1077,
      1083, 1100, 1085, 1099, 1077, 32, 1087, 1086, 1083, 1103]"

text \<open>Line 181: the field has_conflicts must be boolean.\<close>

definition msg_has_conflicts_type :: pystr where
  "msg_has_conflicts_type =
     [1055, 1086, 1083, 1077, 32, 39, 104, 97, 115, 95, 99, 111, 110, 102, 108, 105, 99,
      116, 115, 39, 32, 1076, 1086, 1083, 1078, 1085, 1086, 32, 1073, 1099, 1090, 1100,
      32, 98, 111, 111, 108, 101, 97, 110]"

text \<open>Line 184: the field has_supporting_facts must be boolean.\<close>

definition msg_has_supporting_facts_type :: pystr where
  "msg_has_supporting_facts_type =
     [1055, 1086, 1083, 1077, 32, 39, 104, 97, 115, 95, 115, 117, 112, 112, 111, 114,
      116, 105, 110, 103, 95, 102, 97, 99, 116, 115, 39, 32, 1076, 1086, 1083, 1078,
      1085, 1086, 32, 1073, 1099, 1090, 1100, 32, 98, 111, 111, 108, 101, 97, 110]"

text \<open>Line 187: the field inconsistencies must be a list.\<close>

definition msg_inconsistencies_type :: pystr where
  "msg_inconsistencies_type =
     [1055, 1086, 1083, 1077, 32, 39, 105, 110, 99, 111, 110, 115, 105, 115, 116, 101,
      110, 99, 105, 101, 115, 39, 32, 1076, 1086, 1083, 1078, 1085, 1086, 32, 1073,
      1099, 1090, 1100, 32, 1089, 1087, 1080, 1089, 1082, 1086, 1084]"

text \<open>Line 190: the field supporting_facts must be a list.\<close>

definition msg_supporting_facts_type :: pystr where
  "msg_supporting_facts_type =
     [1055, 1086, 1083, 1077, 32, 39, 115, 117, 112, 112, 111, 114, 116, 105, 110, 103,
      95, 102, 97, 99, 116, 115, 39, 32, 1076, 1086, 1083, 1078, 1085, 1086, 32, 1073,
      1099, 1090, 1100, 32, 1089, 1087, 1080, 1089, 1082, 1086, 1084]"

text \<open>Line 193: the field confidence must be a number.\<close>

definition msg_confidence_type :: pystr where
  "msg_confidence_type =
     [1055, 1086, 1083, 1077, 32, 39, 99, 111, 110, 102, 105, 100, 101, 110, 99, 101,
      39, 32, 1076, 1086, 1083, 1078, 1085, 1086, 32, 1073, 1099, 1090, 1100, 32, 1095,
      1080, 1089, 1083, 1086, 1084]"

text \<open>Line 196: the field explanation must be a string.\<close>

definition msg_explanation_type :: pystr where
  "msg_explanation_type =
     [1055, 1086, 1083, 1077, 32, 39, 101, 120, 112, 108, 97, 110, 97, 116, 105, 111,
      110, 39, 32, 1076, 1086, 1083, 1078, 1085, 1086, 32, 1073, 1099, 1090, 1100, 32,
      1089, 1090, 1088, 1086, 1082, 1086, 1081]"

text \<open>Line 201: ill-formed element of inconsistencies.\<close>

definition msg_inconsistencies_element :: pystr where
  "msg_inconsistencies_element =
     [1053, 1077, 1082, 1086, 1088, 1088, 1077, 1082, 1090, 1085, 1072, 1103, 32, 1089,
      1090, 1088, 1091, 1082, 1090, 1091, 1088, 1072, 32, 1101, 1083, 1077, 1084, 1077,
      1085, 1090, 1072, 32, 105, 110, 99, 111, 110, 115, 105, 115, 116, 101, 110, 99,
      105, 101, 115]"

text \<open>Line 206: ill-formed element of supporting_facts.\<close>

definition msg_supporting_facts_element :: pystr where
  "msg_supporting_facts_element =
     [1053, 1077, 1082, 1086, 1088, 1088, 1077, 1082, 1090, 1085, 1072, 1103, 32, 1089,
      1090, 1088, 1091, 1082, 1090, 1091, 1088, 1072, 32, 1101, 1083, 1077, 1084, 1077,
      1085, 1090, 1072, 32, 115, 117, 112, 112, 111, 114, 116, 105, 110, 103, 95, 102,
      97, 99, 116, 115]"

text \<open>
  Lines 100-103: your previous answer was not correct JSON, return only corrected JSON;
  then the heading of the previous answer.
\<close>

definition correction_head :: pystr where
  "correction_head =
     [1042, 1072, 1096, 32, 1087, 1088, 1077, 1076, 1099, 1076, 1091, 1097, 1080, 1081,
      32, 1086, 1090, 1074, 1077, 1090, 32, 1080, 1084, 1077, 1083, 32, 1085, 1077,
      1082, 1086, 1088, 1088, 1077, 1082, 1090, 1085, 1099, 1081, 32, 74, 83, 79, 78,
      32, 1092, 1086, 1088, 1084, 1072, 1090, 46, 32, 10, 1055, 1086, 1078, 1072, 1083,
      1091, 1081, 1089, 1090, 1072, 44, 32, 1080, 1089, 1087, 1088, 1072, 1074, 1100,
      1090, 1077, 32, 1077, 1075, 1086, 32, 1080, 32, 1074, 1077, 1088, 1085, 1080,
      1090, 1077, 32, 1058, 1054, 1051, 1068, 1050, 1054, 32, 1082, 1086, 1088, 1088,
      1077, 1082, 1090, 1085, 1099, 1081, 32, 74, 83, 79, 78, 32, 1073, 1077, 1079, 32,
      109, 97, 114, 107, 100, 111, 119, 110, 32, 1088, 1072, 1079, 1084, 1077, 1090,
      1082, 1080, 44, 32, 1073, 1077, 1079, 32, 1076, 1086, 1087, 1086, 1083, 1085,
      1080, 1090, 1077, 1083, 1100, 1085, 1086, 1075, 1086, 32, 1090, 1077, 1082, 1089,
      1090, 1072, 44, 32, 1073, 1077, 1079, 32, 1090, 1088, 1086, 1081, 1085, 1099,
      1093, 32, 1082, 1072, 1074, 1099, 1095, 1077, 1082, 46, 10, 10, 1042, 1072, 1096,
      32, 1087, 1088, 1077, 1076, 1099, 1076, 1091, 1097, 1080, 1081, 32, 1086, 1090,
      1074, 1077, 1090, 58, 10]"

text \<open>Line 106: the label in front of the error text.\<close>

definition correction_error :: pystr where
  "correction_error =
     [10, 10, 1054, 1096, 1080, 1073, 1082, 1072, 58, 32]"

text \<open>Line 108: return the corrected JSON in the right format.\<close>

definition correction_tail :: pystr where
  "correction_tail =
     [10, 10, 1042, 1077, 1088, 1085, 1080, 1090, 1077, 32, 1080, 1089, 1087, 1088,
      1072, 1074, 1083, 1077, 1085, 1085, 1099, 1081, 32, 74, 83, 79, 78, 32, 1074, 32,
      1087, 1088, 1072, 1074, 1080, 1083, 1100, 1085, 1086, 1084, 32, 1092, 1086, 1088,
      1084, 1072, 1090, 1077, 32, 40, 1090, 1086, 1083, 1100, 1082, 1086, 32, 74, 83,
      79, 78, 44, 32, 1073, 1077, 1079, 32, 96, 96, 96, 41, 58]"

text \<open>Line 112: the system prompt of a correction call.\<close>

definition correction_system_prompt :: pystr where
  "correction_system_prompt =
     [1042, 1099, 32, 45, 32, 1087, 1086, 1084, 1086, 1097, 1085, 1080, 1082, 32, 1076,
      1083, 1103, 32, 1080, 1089, 1087, 1088, 1072, 1074, 1083, 1077, 1085, 1080, 1103,
      32, 74, 83, 79, 78, 32, 1092, 1086, 1088, 1084, 1072, 1090, 1072, 46, 32, 1042,
      1077, 1088, 1085, 1080, 1090, 1077, 32, 1058, 1054, 1051, 1068, 1050, 1054, 32,
      1082, 1086, 1088, 1088, 1077, 1082, 1090, 1085, 1099, 1081, 32, 74, 83, 79, 78,
      32, 1073, 1077, 1079, 32, 109, 97, 114, 107, 100, 111, 119, 110, 32, 1088, 1072,
      1079, 1084, 1077, 1090, 1082, 1080, 44, 32, 1073, 1077, 1079, 32, 1090, 1088,
      1086, 1081, 1085, 1099, 1093, 32, 1082, 1072, 1074, 1099, 1095, 1077, 1082, 44,
      32, 1073, 1077, 1079, 32, 1076, 1086, 1087, 1086, 1083, 1085, 1080, 1090, 1077,
      1083, 1100, 1085, 1086, 1075, 1086, 32, 1090, 1077, 1082, 1089, 1090, 1072, 46]"

text \<open>Line 119: error parsing the JSON answer after.\<close>

definition failure_head :: pystr where
  "failure_head =
     [1054, 1096, 1080, 1073, 1082, 1072, 32, 1087, 1072, 1088, 1089, 1080, 1085, 1075,
      1072, 32, 74, 83, 79, 78, 32, 1086, 1090, 1074, 1077, 1090, 1072, 32, 1087, 1086,
      1089, 1083, 1077, 32]"

text \<open>Line 119: attempts:.\<close>

definition failure_mid :: pystr where
  "failure_mid =
     [32, 1087, 1086, 1087, 1099, 1090, 1086, 1082, 58, 32]"
section \<open>Exceptions and JSON values\<close>

text \<open>
  The exceptions that the modelled code can raise or let through. \<open>JSONDecodeError\<close> is a
  subclass of \<open>ValueError\<close> in Python; both carry the text that \<open>str(e)\<close> returns.
  \<open>APIError\<close> stands for any exception of the remote client and \<open>RetryError\<close> is the
  exception in which the retry decorator wraps the last failure.
\<close>

datatype exn =
    JSONDecodeError pystr
  | ValueError pystr
  | KeyError pystr
  | TypeError
  | AttributeError
  | FileNotFoundError
  | APIError pystr
  | RetryError exn

text \<open>
  A Python \<open>float\<close>: a finite value or one of the three special values that
  \<open>json.loads\<close> also accepts. Only its truth value is ever inspected.
\<close>

datatype pyfloat = Fin rat | NaN | PosInf | NegInf

definition float_truthy :: "pyfloat \<Rightarrow> bool" where
  "float_truthy f \<longleftrightarrow> f \<noteq> Fin 0"

text \<open>
  What \<open>json.loads\<close> returns. A \<open>dict\<close> keeps its keys in insertion order, so it is an
  association list, read with \<open>map_of\<close> and written with \<open>AList.update\<close> (which replaces
  the value of a present key in place and appends an absent one).
\<close>

datatype json =
    JNull
  | JBool bool
  | JInt int
  | JFloat pyfloat
  | JStr pystr
  | JList "json list"
  | JDict "(pystr \<times> json) list"

text \<open>\<open>bool(x)\<close>, the truth value of a Python object.\<close>

fun truthy :: "json \<Rightarrow> bool" where
  "truthy JNull = False"
| "truthy (JBool b) = b"
| "truthy (JInt i) = (i \<noteq> 0)"
| "truthy (JFloat f) = float_truthy f"
| "truthy (JStr s) = (s \<noteq> [])"
| "truthy (JList xs) = (xs \<noteq> [])"
| "truthy (JDict kvs) = (kvs \<noteq> [])"

text \<open>
  \<open>isinstance(x, bool)\<close>, \<open>isinstance(x, (int, float))\<close> (\<open>bool\<close> is a subclass of
  \<open>int\<close>) and \<open>isinstance(x, str)\<close>.
\<close>

fun is_bool :: "json \<Rightarrow> bool" where
  "is_bool (JBool b) = True"
| "is_bool x = False"

fun is_number :: "json \<Rightarrow> bool" where
  "is_number (JBool b) = True"
| "is_number (JInt i) = True"
| "is_number (JFloat f) = True"
| "is_number x = False"

fun is_str :: "json \<Rightarrow> bool" where
  "is_str (JStr s) = True"
| "is_str x = False"

text \<open>
  \<open>k in x\<close> for a string \<open>k\<close>: a key of a dict, an element of a list, a substring of a
  string; any other object is not a container and the test raises \<open>TypeError\<close>.
\<close>

fun py_in :: "pystr \<Rightarrow> json \<Rightarrow> exn + bool" where
  "py_in k (JDict kvs) = Inr (map_of kvs k \<noteq> None)"
| "py_in k (JList xs) = Inr (JStr k \<in> set xs)"
| "py_in k (JStr s) = Inr (contains s k)"
| "py_in k x = Inl TypeError"

text \<open>
  \<open>all(k in x for k in ks)\<close>: the generator is consumed from the left and stops at the first
  false test; a test that raises ends the evaluation.
\<close>

fun all_in :: "pystr list \<Rightarrow> json \<Rightarrow> exn + bool" where
  "all_in [] x = Inr True"
| "all_in (k # ks) x =
     (case py_in k x of
        Inl e \<Rightarrow> Inl e
      | Inr b \<Rightarrow> if b then all_in ks x else Inr False)"

text \<open>
  \<open>x[k]\<close>, \<open>x.get(k)\<close> and \<open>x[k] = v\<close> for a string key \<open>k\<close>. Only a dict supports them:
  a list or a string raises \<open>TypeError\<close> on a string index, and only a dict has \<open>get\<close>.
\<close>

fun py_getitem :: "json \<Rightarrow> pystr \<Rightarrow> exn + json" where
  "py_getitem (JDict kvs) k = (case map_of kvs k of None \<Rightarrow> Inl (KeyError k) | Some v \<Rightarrow> Inr v)"
| "py_getitem x k = Inl TypeError"

fun py_get :: "json \<Rightarrow> pystr \<Rightarrow> exn + json" where
  "py_get (JDict kvs) k = Inr (case map_of kvs k of None \<Rightarrow> JNull | Some v \<Rightarrow> v)"
| "py_get x k = Inl AttributeError"

fun py_setitem :: "json \<Rightarrow> pystr \<Rightarrow> json \<Rightarrow> exn + json" where
  "py_setitem (JDict kvs) k v = Inr (JDict (AList.update k v kvs))"
| "py_setitem x k v = Inl TypeError"

text \<open>Sequencing of two steps of which the first may raise.\<close>

definition bnd :: "exn + 'a \<Rightarrow> ('a \<Rightarrow> exn + 'b) \<Rightarrow> exn + 'b" where
  "bnd m f = (case m of Inl e \<Rightarrow> Inl e | Inr a \<Rightarrow> f a)"

section \<open>Validation and normalisation of the parsed answer\<close>

text \<open>
  \<open>if not isinstance(v, list): raise ValueError(msg)\<close>; the elements are handed on for the
  loops over the same field.
\<close>

fun as_list :: "pystr \<Rightarrow> json \<Rightarrow> exn + json list" where
  "as_list msg (JList xs) = Inr xs"
| "as_list msg x = Inl (ValueError msg)"

text \<open>
  The loops of lines 199-201 and 204-206: every element must pass
  \<open>all(k in inc for k in ['statement', 'fact', 'explanation'])\<close>.
\<close>

definition element_fields :: "pystr list" where
  "element_fields = [u ''statement'', u ''fact'', u ''explanation'']"

fun check_elements :: "pystr \<Rightarrow> json list \<Rightarrow> exn + unit" where
  "check_elements msg [] = Inr ()"
| "check_elements msg (x # xs) =
     (case all_in element_fields x of
        Inl e \<Rightarrow> Inl e
      | Inr b \<Rightarrow> if b then check_elements msg xs else Inl (ValueError msg))"

text \<open>
  The list comprehensions of lines 208 and 215, \<open>[inc for inc in xs if inc.get('fact')]\<close>:
  the elements are visited from the left, and an element without a \<open>get\<close> method raises.
\<close>

fun filter_facts :: "json list \<Rightarrow> exn + json list" where
  "filter_facts [] = Inr []"
| "filter_facts (x # xs) =
     (case py_get x (u ''fact'') of
        Inl e \<Rightarrow> Inl e
      | Inr v \<Rightarrow>
          (case filter_facts xs of
             Inl e \<Rightarrow> Inl e
           | Inr ys \<Rightarrow> Inr (if truthy v then x # ys else ys)))"

definition required_fields :: "pystr list" where
  "required_fields =
     [u ''has_conflicts'', u ''inconsistencies'', u ''supporting_facts'', u ''confidence'',
      u ''explanation'']"

text \<open>
  \<open>FactConsistencyChecker._validate_response\<close>. The Python method returns nothing and
  changes the dict it is given; the model returns the changed dict. A field that was read
  for its type check is not read again for the loop over it: nothing is assigned in
  between. The two lists are filtered and assigned in the order of the source, the flag of
  each list right after it.
\<close>

definition validate_response :: "json \<Rightarrow> exn + json" where
  "validate_response response =
     bnd (all_in required_fields response) (\<lambda>present.
     if \<not> present then Inl (ValueError msg_missing_fields) else
     bnd (py_getitem response (u ''has_conflicts'')) (\<lambda>hc.
     if \<not> is_bool hc then Inl (ValueError msg_has_conflicts_type) else
     bnd (py_getitem response (u ''has_supporting_facts'')) (\<lambda>hs.
     if \<not> is_bool hs then Inl (ValueError msg_has_supporting_facts_type) else
     bnd (py_getitem response (u ''inconsistencies'')) (\<lambda>inc.
     bnd (as_list msg_inconsistencies_type inc) (\<lambda>incs.
     bnd (py_getitem response (u ''supporting_facts'')) (\<lambda>sup.
     bnd (as_list msg_supporting_facts_type sup) (\<lambda>sups.
     bnd (py_getitem response (u ''confidence'')) (\<lambda>conf.
     if \<not> is_number conf then Inl (ValueError msg_confidence_type) else
     bnd (py_getitem response (u ''explanation'')) (\<lambda>expl.
     if \<not> is_str expl then Inl (ValueError msg_explanation_type) else
     bnd (check_elements msg_inconsistencies_element incs) (\<lambda>_.
     bnd (check_elements msg_supporting_facts_element sups) (\<lambda>_.
     bnd (filter_facts incs) (\<lambda>incs'.
     bnd (py_setitem response (u ''inconsistencies'') (JList incs')) (\<lambda>r1.
     bnd (if incs' = [] then py_setitem r1 (u ''has_conflicts'') (JBool False) else Inr r1)
       (\<lambda>r2.
     bnd (filter_facts sups) (\<lambda>sups'.
     bnd (py_setitem r2 (u ''supporting_facts'') (JList sups')) (\<lambda>r3.
     if sups' = [] then py_setitem r3 (u ''has_supporting_facts'') (JBool False)
     else Inr r3))))))))))))))))"

text \<open>
  \<open>FactCheckResult\<close> and \<open>FactConsistencyChecker._parse_llm_response\<close>. The dataclass
  does not check the types of its fields, so each one holds the object found in the dict.
\<close>

record FactCheckResult =
  has_conflicts :: json
  has_supporting_facts :: json
  inconsistencies :: json
  supporting_facts :: json
  confidence :: json
  relevant_facts :: "pystr list"
  explanation :: json

definition parse_llm_response :: "json \<Rightarrow> pystr list \<Rightarrow> exn + FactCheckResult" where
  "parse_llm_response response facts =
     bnd (py_getitem response (u ''has_conflicts'')) (\<lambda>hc.
     bnd (py_getitem response (u ''has_supporting_facts'')) (\<lambda>hs.
     bnd (py_getitem response (u ''inconsistencies'')) (\<lambda>inc.
     bnd (py_getitem response (u ''supporting_facts'')) (\<lambda>sup.
     bnd (py_getitem response (u ''confidence'')) (\<lambda>conf.
     bnd (py_getitem response (u ''explanation'')) (\<lambda>expl.
     Inr \<lparr>has_conflicts = hc, has_supporting_facts = hs, inconsistencies = inc,
          supporting_facts = sup, confidence = conf, relevant_facts = facts,
          explanation = expl\<rparr>))))))"

section \<open>The gateway to the remote model\<close>

text \<open>
  One request to \<open>client.chat.completions.create\<close>: the model, the messages as pairs of
  role and content, the temperature, the token budget and the time limit.
\<close>

record request =
  rq_model :: pystr
  rq_messages :: "(pystr \<times> pystr) list"
  rq_temperature :: pyfloat
  rq_max_tokens :: int
  rq_timeout :: int

text \<open>
  The remote service is outside the program. It is a parameter: what the \<open>n\<close>-th chat
  request and the \<open>n\<close>-th embedding request of the process return, either the content of
  the first choice (the embedding vector) or the exception that the client raises.
\<close>

record service =
  chat_reply :: "nat \<Rightarrow> request \<Rightarrow> exn + pystr"
  emb_reply :: "nat \<Rightarrow> pystr \<Rightarrow> exn + pyfloat list"

text \<open>
  The state of the process that the modelled code reads or changes: the chat requests and
  the embedding inputs sent so far (oldest first), the delays that the retry decorator has
  slept, in seconds, and the module-level dict \<open>_embeddings_cache\<close> of \<open>graph_rag.py\<close>.
  Logging and printing are not modelled.
\<close>

record world =
  chat_log :: "request list"
  emb_log :: "pystr list"
  sleeps :: "int list"
  cache :: "(pystr \<times> pyfloat list) list"

definition chat_completions_create ::
  "service \<Rightarrow> request \<Rightarrow> world \<Rightarrow> (exn + pystr) \<times> world" where
  "chat_completions_create svc rq w =
     (chat_reply svc (length (chat_log w)) rq, w\<lparr>chat_log := chat_log w @ [rq]\<rparr>)"

definition embeddings_create ::
  "service \<Rightarrow> pystr \<Rightarrow> world \<Rightarrow> (exn + pyfloat list) \<times> world" where
  "embeddings_create svc text w =
     (emb_reply svc (length (emb_log w)) text, w\<lparr>emb_log := emb_log w @ [text]\<rparr>)"

text \<open>
  The decorator \<open>@retry(stop=stop_after_attempt(n), wait=wait_exponential(multiplier, min,
  max))\<close> of the tenacity library. After a failed attempt number \<open>k\<close> (counted from 1) it
  stops when \<open>k >= n\<close> and raises \<open>RetryError\<close> around the failure; otherwise it sleeps
  \<open>max(max(0, min), min(multiplier * 2 ** (k - 1), max))\<close> seconds and calls again.
\<close>

definition wait_exponential :: "int \<Rightarrow> int \<Rightarrow> int \<Rightarrow> nat \<Rightarrow> int" where
  "wait_exponential multiplier mn mx attempt_number =
     max (max 0 mn) (min (multiplier * 2 ^ (attempt_number - 1)) mx)"

function retry_call ::
  "nat \<Rightarrow> (nat \<Rightarrow> int) \<Rightarrow> nat \<Rightarrow> (world \<Rightarrow> (exn + 'a) \<times> world) \<Rightarrow> world \<Rightarrow> (exn + 'a) \<times> world"
  where
  "retry_call stop_after wait attempt_number f w =
     (case f w of
        (Inr v, w') \<Rightarrow> (Inr v, w')
      | (Inl e, w') \<Rightarrow>
          if attempt_number \<ge> stop_after then (Inl (RetryError e), w')
          else retry_call stop_after wait (Suc attempt_number) f
                 (w'\<lparr>sleeps := sleeps w' @ [wait attempt_number]\<rparr>))"
  by pat_completeness auto
termination
  by (relation "measure (\<lambda>(stop_after, wait, attempt_number, f, w). stop_after - attempt_number)")
     auto

definition retry :: "nat \<Rightarrow> (nat \<Rightarrow> int) \<Rightarrow> (world \<Rightarrow> (exn + 'a) \<times> world) \<Rightarrow> world \<Rightarrow> (exn + 'a) \<times> world"
  where
  "retry stop_after wait f w = retry_call stop_after wait 1 f w"

text \<open>
  \<open>YandexCloudLLM\<close>: the fields that the calls read. \<open>YandexCloudLLM_init\<close> is the
  constructor with its arguments in the order of the source; the defaults of the source
  are \<open>model_uri = "yandexgpt-lite"\<close>, \<open>model_type = "gpt"\<close>, \<open>temperature = 0.1\<close>,
  \<open>max_tokens = 1000\<close> and \<open>timeout = 30\<close>.
\<close>

record YandexCloudLLM =
  llm_model :: pystr
  llm_temperature :: pyfloat
  llm_max_tokens :: int
  llm_timeout :: int

definition YandexCloudLLM_init ::
  "pystr \<Rightarrow> pystr \<Rightarrow> pystr \<Rightarrow> pyfloat \<Rightarrow> int \<Rightarrow> int \<Rightarrow> YandexCloudLLM" where
  "YandexCloudLLM_init folder_id model_uri model_type temperature max_tokens timeout =
     \<lparr>llm_model = model_type @ u ''://'' @ folder_id @ u ''/'' @ model_uri @ u ''/latest'',
      llm_temperature = temperature, llm_max_tokens = max_tokens, llm_timeout = timeout\<rparr>"

text \<open>
  \<open>x or d\<close> for an optional number \<open>x\<close>: \<open>None\<close> and zero are both false in Python, so
  both give \<open>d\<close>.
\<close>

definition float_or :: "pyfloat option \<Rightarrow> pyfloat \<Rightarrow> pyfloat" where
  "float_or x d = (case x of None \<Rightarrow> d | Some v \<Rightarrow> if float_truthy v then v else d)"

definition int_or :: "int option \<Rightarrow> int \<Rightarrow> int" where
  "int_or x d = (case x of None \<Rightarrow> d | Some v \<Rightarrow> if v \<noteq> 0 then v else d)"

text \<open>
  \<open>YandexCloudLLM.analyze_consistency\<close>, decorated with \<open>stop_after_attempt(1)\<close>.
  \<open>consistency_request\<close> is the request that its body builds (lines 80-95); the
  \<open>except\<close> clause of the body prints and raises the same exception again.
\<close>

definition consistency_request ::
  "YandexCloudLLM \<Rightarrow> pystr \<Rightarrow> pystr \<Rightarrow> pyfloat option \<Rightarrow> int option \<Rightarrow> request" where
  "consistency_request self prompt system_prompt temperature max_tokens =
     \<lparr>rq_model = llm_model self,
      rq_messages = [(u ''system'', system_prompt), (u ''user'', prompt)],
      rq_temperature = float_or temperature (llm_temperature self),
      rq_max_tokens = int_or max_tokens (llm_max_tokens self),
      rq_timeout = llm_timeout self\<rparr>"

definition analyze_consistency ::
  "service \<Rightarrow> YandexCloudLLM \<Rightarrow> pystr \<Rightarrow> pystr \<Rightarrow> pyfloat option \<Rightarrow> int option \<Rightarrow> world \<Rightarrow>
   (exn + pystr) \<times> world" where
  "analyze_consistency svc self prompt system_prompt temperature max_tokens w =
     retry 1 (wait_exponential 1 4 10)
       (chat_completions_create svc
          (consistency_request self prompt system_prompt temperature max_tokens)) w"

text \<open>
  \<open>YandexCloudLLM.request_gpt\<close> and \<open>request_gpt_async\<close>, decorated with
  \<open>stop_after_attempt(3)\<close>. \<open>gpt_request\<close> is the request that both bodies build: the
  system message is only sent when \<open>system_prompt\<close> is neither \<open>None\<close> nor empty. The
  asynchronous variant has the same body on the asynchronous client.
\<close>

definition gpt_request ::
  "YandexCloudLLM \<Rightarrow> pystr \<Rightarrow> pystr option \<Rightarrow> pyfloat option \<Rightarrow> int option \<Rightarrow> request" where
  "gpt_request self prompt system_prompt temperature max_tokens =
     \<lparr>rq_model = llm_model self,
      rq_messages =
        (case system_prompt of
           None \<Rightarrow> []
         | Some s \<Rightarrow> if s \<noteq> [] then [(u ''system'', s)] else []) @ [(u ''user'', prompt)],
      rq_temperature = float_or temperature (llm_temperature self),
      rq_max_tokens = int_or max_tokens (llm_max_tokens self),
      rq_timeout = llm_timeout self\<rparr>"

definition request_gpt ::
  "service \<Rightarrow> YandexCloudLLM \<Rightarrow> pystr \<Rightarrow> pystr option \<Rightarrow> pyfloat option \<Rightarrow> int option \<Rightarrow> world \<Rightarrow>
   (exn + pystr) \<times> world" where
  "request_gpt svc self prompt system_prompt temperature max_tokens w =
     retry 3 (wait_exponential 1 4 10)
       (chat_completions_create svc
          (gpt_request self prompt system_prompt temperature max_tokens)) w"

definition request_gpt_async ::
  "service \<Rightarrow> YandexCloudLLM \<Rightarrow> pystr \<Rightarrow> pystr option \<Rightarrow> pyfloat option \<Rightarrow> int option \<Rightarrow> world \<Rightarrow>
   (exn + pystr) \<times> world" where
  "request_gpt_async svc self prompt system_prompt temperature max_tokens w =
     retry 3 (wait_exponential 1 4 10)
       (chat_completions_create svc
          (gpt_request self prompt system_prompt temperature max_tokens)) w"

text \<open>\<open>YandexCloudLLM.request_emb\<close>, decorated with \<open>stop_after_attempt(3)\<close>.\<close>

definition request_emb ::
  "service \<Rightarrow> YandexCloudLLM \<Rightarrow> pystr \<Rightarrow> world \<Rightarrow> (exn + pyfloat list) \<times> world" where
  "request_emb svc self text w =
     retry 3 (wait_exponential 1 4 10) (embeddings_create svc text) w"

section \<open>The fact checker\<close>

text \<open>
  \<open>FactConsistencyChecker\<close>: its gateway, its configuration \<open>[temperature, max_tokens]\<close>
  (read as \<open>config[0]\<close> and \<open>config[1]\<close>) and the language of the system prompt.
\<close>

record FactConsistencyChecker =
  llm_service :: YandexCloudLLM
  config :: "pyfloat \<times> int"
  language :: pystr

text \<open>\<open>sep.join(xs)\<close>.\<close>

fun join :: "pystr \<Rightarrow> pystr list \<Rightarrow> pystr" where
  "join sep [] = []"
| "join sep [x] = x"
| "join sep (x # y # ys) = x @ sep @ join sep (y # ys)"

text \<open>
  \<open>FactConsistencyChecker._create_prompt\<close>. The template is a triple-quoted string: its
  second line starts with the eight spaces of the source's indentation.
\<close>

definition create_prompt :: "pystr \<Rightarrow> pystr list \<Rightarrow> pystr" where
  "create_prompt text facts =
     u ''Input text to check: '' @ text @ [10] @ u ''        Known facts: '' @
     join [10] (map (\<lambda>fact. u ''- '' @ fact) facts)"

text \<open>
  \<open>FactConsistencyChecker._get_system_prompt\<close>. The prompt files are a parameter \<open>fs\<close>:
  the content of each file, by its path below the root of the project. The file is looked
  for in \<open>prompts/\<close> first and at the root otherwise; a missing file makes \<open>open\<close> raise.
\<close>

definition get_system_prompt :: "(pystr \<rightharpoonup> pystr) \<Rightarrow> pystr \<Rightarrow> exn + pystr" where
  "get_system_prompt fs lang =
     (let prompt_filename =
            u ''system_prompt_'' @ (if lang = u ''en'' then u ''eng'' else u ''ru'') @
            u ''.txt'';
          p = u ''prompts/'' @ prompt_filename;
          prompt_path = (if fs p \<noteq> None then p else prompt_filename)
      in case fs prompt_path of None \<Rightarrow> Inl FileNotFoundError | Some c \<Rightarrow> Inr c)"

text \<open>The request of the first call of \<open>check_facts\<close> (lines 75-80).\<close>

definition initial_request :: "FactConsistencyChecker \<Rightarrow> pystr \<Rightarrow> pystr \<Rightarrow> pystr list \<Rightarrow> request"
  where
  "initial_request self system_prompt text facts =
     consistency_request (llm_service self) (create_prompt text facts) system_prompt
       (Some (fst (config self))) (Some (snd (config self)))"

definition max_attempts :: nat where
  "max_attempts = 5"

text \<open>
  The prompt of a correction call (lines 100-108): the previous answer and the text of the
  error between the three fixed pieces.
\<close>

definition correction_prompt :: "pystr \<Rightarrow> pystr \<Rightarrow> pystr" where
  "correction_prompt llm_response err =
     correction_head @ llm_response @ correction_error @ err @ correction_tail"

text \<open>The request of a correction call (lines 110-115).\<close>

definition correction_request :: "YandexCloudLLM \<Rightarrow> pystr \<Rightarrow> pystr \<Rightarrow> request" where
  "correction_request llm llm_response err =
     consistency_request llm (correction_prompt llm_response err) correction_system_prompt
       (Some (Fin (1 / 10))) (Some 1500)"

text \<open>
  The message of the \<open>ValueError\<close> of line 119; \<open>{max_attempts}\<close> prints as \<open>5\<close>.
\<close>

definition failure_message :: "pystr \<Rightarrow> pystr" where
  "failure_message err = failure_head @ u ''5'' @ failure_mid @ err"

text \<open>
  \<open>except (json.JSONDecodeError, ValueError) as e\<close>: the exceptions that the loop handles,
  with \<open>str(e)\<close>. Every other exception leaves the loop.
\<close>

fun caught :: "exn \<Rightarrow> pystr option" where
  "caught (JSONDecodeError m) = Some m"
| "caught (ValueError m) = Some m"
| "caught e = None"

text \<open>
  The body of the \<open>try\<close> of lines 87-90: clean, parse, validate. \<open>json.loads\<close> is a
  parameter \<open>loads\<close>. The result is the dict as validation leaves it, which is what line
  123 reads.
\<close>

definition try_parse :: "(pystr \<Rightarrow> exn + json) \<Rightarrow> pystr \<Rightarrow> exn + json" where
  "try_parse loads llm_response =
     bnd (loads (clean_json_response llm_response)) validate_response"

text \<open>
  The text of the error of one round of the loop, when the round fails with an exception
  that the loop handles.
\<close>

definition failure_text :: "(pystr \<Rightarrow> exn + json) \<Rightarrow> pystr \<Rightarrow> pystr option" where
  "failure_text loads llm_response =
     (case try_parse loads llm_response of Inl e \<Rightarrow> caught e | Inr parsed_result \<Rightarrow> None)"

text \<open>
  The loop \<open>for attempt in range(max_attempts)\<close> of lines 85-119, entered with
  \<open>attempt = 0\<close>. A success leaves the loop (\<open>break\<close>); a handled failure before the last
  attempt sends the correction call, whose answer is parsed by the next round; a handled
  failure at the last attempt raises \<open>ValueError\<close>.
\<close>

function parse_loop ::
  "(pystr \<Rightarrow> exn + json) \<Rightarrow> service \<Rightarrow> YandexCloudLLM \<Rightarrow> nat \<Rightarrow> pystr \<Rightarrow> world \<Rightarrow>
   (exn + json) \<times> world" where
  "parse_loop loads svc llm attempt llm_response w =
     (case try_parse loads llm_response of
        Inr parsed_result \<Rightarrow> (Inr parsed_result, w)
      | Inl e \<Rightarrow>
          (case caught e of
             None \<Rightarrow> (Inl e, w)
           | Some err \<Rightarrow>
               if attempt < max_attempts - 1 then
                 (case analyze_consistency svc llm (correction_prompt llm_response err)
                         correction_system_prompt (Some (Fin (1 / 10))) (Some 1500) w of
                    (Inl e', w') \<Rightarrow> (Inl e', w')
                  | (Inr llm_response', w') \<Rightarrow>
                      parse_loop loads svc llm (Suc attempt) llm_response' w')
               else (Inl (ValueError (failure_message err)), w)))"
  by pat_completeness auto
termination
  by (relation "measure (\<lambda>(loads, svc, llm, attempt, llm_response, w). max_attempts - attempt)")
     auto

text \<open>
  \<open>FactConsistencyChecker.check_facts\<close>. The outer \<open>except Exception\<close> logs and raises the
  same exception again.
\<close>

definition check_facts ::
  "(pystr \<Rightarrow> exn + json) \<Rightarrow> (pystr \<rightharpoonup> pystr) \<Rightarrow> service \<Rightarrow> FactConsistencyChecker \<Rightarrow> pystr \<Rightarrow>
   pystr list \<Rightarrow> world \<Rightarrow> (exn + FactCheckResult) \<times> world" where
  "check_facts loads fs svc self text facts w =
     (let prompt = create_prompt text facts in
      case get_system_prompt fs (language self) of
        Inl e \<Rightarrow> (Inl e, w)
      | Inr system_prompt \<Rightarrow>
          (case analyze_consistency svc (llm_service self) prompt system_prompt
                  (Some (fst (config self))) (Some (snd (config self))) w of
             (Inl e, w') \<Rightarrow> (Inl e, w')
           | (Inr llm_response, w') \<Rightarrow>
               (case parse_loop loads svc (llm_service self) 0 llm_response w' of
                  (Inl e, w'') \<Rightarrow> (Inl e, w'')
                | (Inr parsed_result, w'') \<Rightarrow>
                    (parse_llm_response parsed_result facts, w''))))"

section \<open>The embedding cache\<close>

text \<open>
  \<open>CustomEmbeddingModel\<close> of \<open>graph_rag.py\<close>; \<open>emb_model\<close> is the module-level gateway
  that it calls. \<open>_aget_query_embedding\<close> calls \<open>_get_query_embedding\<close>.
\<close>

definition get_query_embedding ::
  "service \<Rightarrow> YandexCloudLLM \<Rightarrow> pystr \<Rightarrow> world \<Rightarrow> (exn + pyfloat list) \<times> world" where
  "get_query_embedding svc emb_model query w =
     (case map_of (cache w) query of
        Some v \<Rightarrow> (Inr v, w)
      | None \<Rightarrow>
          (case request_emb svc emb_model query w of
             (Inl e, w') \<Rightarrow> (Inl e, w')
           | (Inr embedding, w') \<Rightarrow>
               (Inr embedding, w'\<lparr>cache := AList.update query embedding (cache w')\<rparr>)))"

definition aget_query_embedding ::
  "service \<Rightarrow> YandexCloudLLM \<Rightarrow> pystr \<Rightarrow> world \<Rightarrow> (exn + pyfloat list) \<times> world" where
  "aget_query_embedding svc emb_model query w = get_query_embedding svc emb_model query w"

definition get_text_embedding ::
  "service \<Rightarrow> YandexCloudLLM \<Rightarrow> pystr \<Rightarrow> world \<Rightarrow> (exn + pyfloat list) \<times> world" where
  "get_text_embedding svc emb_model text w =
     (case map_of (cache w) text of
        Some v \<Rightarrow> (Inr v, w)
      | None \<Rightarrow>
          (case request_emb svc emb_model text w of
             (Inl e, w') \<Rightarrow> (Inl e, w')
           | (Inr embedding, w') \<Rightarrow>
               (Inr embedding, w'\<lparr>cache := AList.update text embedding (cache w')\<rparr>)))"

text \<open>The operations on the cache, and a run of them in order.\<close>

datatype emb_op = QueryEmbedding pystr | AQueryEmbedding pystr | TextEmbedding pystr

fun emb_step :: "service \<Rightarrow> YandexCloudLLM \<Rightarrow> emb_op \<Rightarrow> world \<Rightarrow> (exn + pyfloat list) \<times> world"
  where
  "emb_step svc m (QueryEmbedding q) w = get_query_embedding svc m q w"
| "emb_step svc m (AQueryEmbedding q) w = aget_query_embedding svc m q w"
| "emb_step svc m (TextEmbedding t) w = get_text_embedding svc m t w"

fun emb_run :: "service \<Rightarrow> YandexCloudLLM \<Rightarrow> emb_op list \<Rightarrow> world \<Rightarrow> world" where
  "emb_run svc m [] w = w"
| "emb_run svc m (op # ops) w = emb_run svc m ops (snd (emb_step svc m op w))"

section \<open>Retrieval\<close>

text \<open>
  \<open>get_retrieved_nodes\<close> of \<open>api.py\<close>, and its copy in \<open>main.py\<close>, which takes the model
  and the embedder as arguments instead of reading the module-level ones. The retriever
  built from the index and the reranker \<open>LLMRerank\<close> are library code: \<open>retrieve\<close> and
  \<open>postprocess_nodes\<close> are parameters, the first given the query and \<open>vector_top_k\<close>, the
  second \<open>top_n\<close>, the nodes and the query.
\<close>

definition get_retrieved_nodes ::
  "(pystr \<Rightarrow> int \<Rightarrow> world \<Rightarrow> (exn + 'n list) \<times> world) \<Rightarrow>
   (int \<Rightarrow> 'n list \<Rightarrow> pystr \<Rightarrow> world \<Rightarrow> (exn + 'n list) \<times> world) \<Rightarrow>
   pystr \<Rightarrow> int \<Rightarrow> int \<Rightarrow> bool \<Rightarrow> world \<Rightarrow> (exn + 'n list) \<times> world" where
  "get_retrieved_nodes retrieve postprocess_nodes query_str vector_top_k reranker_top_n
     with_reranker w =
     (case retrieve query_str vector_top_k w of
        (Inl e, w') \<Rightarrow> (Inl e, w')
      | (Inr retrieved_nodes, w') \<Rightarrow>
          if with_reranker then postprocess_nodes reranker_top_n retrieved_nodes query_str w'
          else (Inr retrieved_nodes, w'))"

definition main_get_retrieved_nodes ::
  "(pystr \<Rightarrow> int \<Rightarrow> world \<Rightarrow> (exn + 'n list) \<times> world) \<Rightarrow>
   (int \<Rightarrow> 'n list \<Rightarrow> pystr \<Rightarrow> world \<Rightarrow> (exn + 'n list) \<times> world) \<Rightarrow>
   pystr \<Rightarrow> int \<Rightarrow> int \<Rightarrow> bool \<Rightarrow> world \<Rightarrow> (exn + 'n list) \<times> world" where
  "main_get_retrieved_nodes retrieve postprocess_nodes query_str vector_top_k reranker_top_n
     with_reranker w =
     (case retrieve query_str vector_top_k w of
        (Inl e, w') \<Rightarrow> (Inl e, w')
      | (Inr retrieved_nodes, w') \<Rightarrow>
          if with_reranker then postprocess_nodes reranker_top_n retrieved_nodes query_str w'
          else (Inr retrieved_nodes, w'))"

text \<open>
  The equations of the two loops are applied step by step in the proofs, not by the
  simplifier.
\<close>

declare parse_loop.simps [simp del] retry_call.simps [simp del]

section \<open>Properties of the cleaning step\<close>

lemma is_space_newline: "is_space 10"
  by (simp add: is_space_def)

lemma not_space_backquote: "\<not> is_space 96"
  by (simp add: is_space_def)

lemma rstrip_snoc_space: "is_space c \<Longrightarrow> rstrip (s @ [c]) = rstrip s"
  by (simp add: rstrip_def)

lemma rstrip_snoc_nonspace: "\<not> is_space c \<Longrightarrow> rstrip (s @ [c]) = s @ [c]"
  by (simp add: rstrip_def)

lemma lstrip_cons_space: "is_space c \<Longrightarrow> lstrip (c # s) = lstrip s"
  by (simp add: lstrip_def)

lemma lstrip_cons_nonspace: "\<not> is_space c \<Longrightarrow> lstrip (c # s) = c # s"
  by (simp add: lstrip_def)

lemma strip_cons_space: "is_space c \<Longrightarrow> strip (c # s) = strip s"
  by (simp add: strip_def lstrip_cons_space)

lemma lstrip_snoc_space:
  "is_space c \<Longrightarrow> rstrip (lstrip (s @ [c])) = rstrip (lstrip s)"
proof (induction s)
  case Nil
  then show ?case by (simp add: lstrip_def rstrip_def)
next
  case (Cons a s)
  show ?case
  proof (cases "is_space a")
    case True
    with Cons show ?thesis by (simp add: lstrip_def)
  next
    case False
    with Cons.prems show ?thesis by (simp add: lstrip_def rstrip_def)
  qed
qed

lemma strip_snoc_space: "is_space c \<Longrightarrow> strip (s @ [c]) = strip s"
  by (simp add: strip_def lstrip_snoc_space)

lemma rstrip_cons_nonspace: "\<not> is_space c \<Longrightarrow> rstrip (c # t) = c # rstrip t"
  by (simp add: rstrip_def dropWhile_append)

lemma lstrip_head: "lstrip s = c # t \<Longrightarrow> \<not> is_space c"
  unfolding lstrip_def by (metis hd_dropWhile list.distinct(1) list.sel(1))

lemma rstrip_idem: "rstrip (rstrip s) = rstrip s"
  by (simp add: rstrip_def dropWhile_idem)

lemma strip_Nil: "strip [] = []"
  by (simp add: strip_def lstrip_def rstrip_def)

lemma strip_idem: "strip (strip s) = strip s"
proof (cases "lstrip s")
  case Nil
  then have "strip s = []" by (simp add: strip_def rstrip_def)
  then show ?thesis by (simp add: strip_Nil)
next
  case (Cons c t)
  then have c: "\<not> is_space c" by (rule lstrip_head)
  then have "strip s = c # rstrip t"
    by (simp add: strip_def Cons rstrip_cons_nonspace)
  moreover have "strip (c # rstrip t) = c # rstrip t"
    using c by (simp add: strip_def lstrip_cons_nonspace rstrip_cons_nonspace rstrip_idem)
  ultimately show ?thesis by simp
qed

lemma strip_between:
  "\<not> is_space a \<Longrightarrow> \<not> is_space b \<Longrightarrow> strip (a # m @ [b]) = a # m @ [b]"
proof -
  assume a: "\<not> is_space a" and b: "\<not> is_space b"
  have "rstrip ((a # m) @ [b]) = (a # m) @ [b]"
    using b by (rule rstrip_snoc_nonspace)
  with a show ?thesis by (simp add: strip_def lstrip_cons_nonspace)
qed

lemma strip_padded: "strip (10 # s @ [10]) = strip s"
proof -
  have "strip (10 # s @ [10]) = strip (s @ [10])"
    by (rule strip_cons_space) (rule is_space_newline)
  also have "\<dots> = strip s"
    by (rule strip_snoc_space) (rule is_space_newline)
  finally show ?thesis .
qed

lemma endswith_append: "endswith (xs @ p) p"
  by (simp add: endswith_def)

lemma clean_fence_json: "clean_json_response (fence_json s) = strip s"
proof -
  let ?body = "10 # s @ [10]"
  have shape: "fence_json s = 96 # ([96, 96, 106, 115, 111, 110] @ ?body @ [96, 96]) @ [96]"
    by (simp add: fence_json_def u_def)
  have s0: "strip (fence_json s) = fence_json s"
    unfolding shape by (rule strip_between) (rule not_space_backquote)+
  have pre: "startswith (fence_json s) (u ''```json'')"
    by (simp add: fence_json_def u_def startswith_def)
  have r1: "drop 7 (fence_json s) = ?body @ u ''```''"
    by (simp add: fence_json_def u_def)
  have e: "endswith (?body @ u ''```'') (u ''```'')"
    by (rule endswith_append)
  have t: "take (length (?body @ u ''```'') - 3) (?body @ u ''```'') = ?body"
    by (simp add: u_def)
  show ?thesis
    unfolding clean_json_response_def Let_def s0
    using pre e t r1 strip_padded[of s] by simp
qed

lemma clean_fence_plain: "clean_json_response (fence_plain s) = strip s"
proof -
  let ?body = "10 # s @ [10]"
  have shape: "fence_plain s = 96 # ([96, 96] @ ?body @ [96, 96]) @ [96]"
    by (simp add: fence_plain_def u_def)
  have s0: "strip (fence_plain s) = fence_plain s"
    unfolding shape by (rule strip_between) (rule not_space_backquote)+
  have npre: "\<not> startswith (fence_plain s) (u ''```json'')"
    by (simp add: fence_plain_def u_def startswith_def)
  have pre: "startswith (fence_plain s) (u ''```'')"
    by (simp add: fence_plain_def u_def startswith_def)
  have r1: "drop 3 (fence_plain s) = ?body @ u ''```''"
    by (simp add: fence_plain_def u_def)
  have e: "endswith (?body @ u ''```'') (u ''```'')"
    by (rule endswith_append)
  have t: "take (length (?body @ u ''```'') - 3) (?body @ u ''```'') = ?body"
    by (simp add: u_def)
  show ?thesis
    unfolding clean_json_response_def Let_def s0
    using npre pre e t r1 strip_padded[of s] by simp
qed

lemma startswith_shorter:
  assumes "startswith s (p @ q)"
  shows "startswith s p"
proof -
  from assms have "take (length p + length q) s = p @ q"
    by (simp add: startswith_def)
  then have "take (length p) (take (length p + length q) s) = take (length p) (p @ q)"
    by simp
  then show ?thesis
    by (simp add: startswith_def)
qed

lemma clean_unfenced:
  assumes "\<not> startswith (strip s) (u ''```'')" and "\<not> endswith (strip s) (u ''```'')"
  shows "clean_json_response s = strip s"
proof -
  have "u ''```json'' = u ''```'' @ u ''json''" by (simp add: u_def)
  with assms(1) have "\<not> startswith (strip s) (u ''```json'')"
    by (metis startswith_shorter)
  with assms show ?thesis
    by (simp add: clean_json_response_def Let_def strip_idem)
qed

text \<open>
  Claim C4, as amended. The cleaning step removes one layer of fence markers. For every
  response \<open>s\<close> that, once its surrounding white space is removed, neither starts nor ends
  with three backquotes, cleaning \<open>s\<close> fenced (with \<open>```json\<close> or with \<open>```\<close>) gives
  the same string as cleaning \<open>s\<close> itself.
\<close>

theorem clean_fenced_same:
  assumes "\<not> startswith (strip s) (u ''```'')" and "\<not> endswith (strip s) (u ''```'')"
  shows "clean_json_response (fence_json s) = clean_json_response s \<and>
         clean_json_response (fence_plain s) = clean_json_response s"
  using assms by (simp add: clean_fence_json clean_fence_plain clean_unfenced)

theorem clean_fenced_same_witness:
  "\<not> startswith (strip (u '' {}'')) (u ''```'') \<and> \<not> endswith (strip (u '' {}'')) (u ''```'') \<and>
   clean_json_response (fence_json (u '' {}'')) = clean_json_response (u '' {}'') \<and>
   clean_json_response (fence_plain (u '' {}'')) = clean_json_response (u '' {}'') \<and>
   clean_json_response (u '' {}'') = u ''{}''"
proof -
  have s: "strip (u '' {}'') = u ''{}''"
    by (simp add: strip_def lstrip_def rstrip_def u_def is_space_def)
  have a: "\<not> startswith (strip (u '' {}'')) (u ''```'')"
    unfolding s by (simp add: startswith_def u_def)
  have b: "\<not> endswith (strip (u '' {}'')) (u ''```'')"
    unfolding s by (simp add: endswith_def u_def)
  have c: "clean_json_response (u '' {}'') = u ''{}''"
    using clean_unfenced[OF a b] s by simp
  show ?thesis using clean_fenced_same[OF a b] a b c by simp
qed

text \<open>
  Claim C4 as stated fails for a response that carries fence markers of its own: fenced
  once more, it comes out of the cleaning step with its own markers, while cleaning the
  response itself removes them.
\<close>

theorem clean_fenced_counterexample:
  "clean_json_response (fence_json (u ''```{}```'')) = u ''```{}```'' \<and>
   clean_json_response (fence_plain (u ''```{}```'')) = u ''```{}```'' \<and>
   clean_json_response (u ''```{}```'') = u ''{}'' \<and>
   clean_json_response (fence_json (u ''```{}```'')) \<noteq> clean_json_response (u ''```{}```'')"
  by (simp add: clean_json_response_def fence_json_def fence_plain_def Let_def strip_def
      lstrip_def rstrip_def startswith_def endswith_def u_def is_space_def)

section \<open>Properties of validation\<close>


lemma bnd_eq_Inr: "bnd m f = Inr y \<longleftrightarrow> (\<exists>a. m = Inr a \<and> f a = Inr y)"
  by (cases m) (simp_all add: bnd_def)

lemma bnd_Inr: "bnd (Inr a) f = f a"
  by (simp add: bnd_def)

lemma bnd_Inl: "bnd (Inl e) f = Inl e"
  by (simp add: bnd_def)

lemma is_bool_iff: "is_bool x \<longleftrightarrow> (\<exists>b. x = JBool b)"
  by (cases x) simp_all

lemma as_list_eq_Inr: "as_list msg x = Inr xs \<longleftrightarrow> x = JList xs"
  by (cases x) auto

lemma py_getitem_eq_Inr:
  "py_getitem r k = Inr v \<longleftrightarrow> (\<exists>kvs. r = JDict kvs \<and> map_of kvs k = Some v)"
  by (cases r) (auto split: option.splits)

lemma py_setitem_eq_Inr:
  "py_setitem r k v = Inr r' \<longleftrightarrow> (\<exists>kvs. r = JDict kvs \<and> r' = JDict (AList.update k v kvs))"
  by (cases r) auto

lemma if_Inl_eq_Inr: "(if c then Inl e else x) = Inr y \<longleftrightarrow> \<not> c \<and> x = Inr y"
  by simp

lemma if_setitem_eq_Inr:
  "(if c then py_setitem (JDict al) k v else Inr (JDict al)) = Inr r' \<longleftrightarrow>
   r' = JDict (if c then AList.update k v al else al)"
  by auto

lemma validate_response_Inr:
  assumes "validate_response r = Inr r'"
  shows "\<exists>kvs hc hs incs sups conf expl incs' sups' kvs1 kvs2 kvs3.
     r = JDict kvs \<and>
     map_of kvs (u ''has_conflicts'') = Some (JBool hc) \<and>
     map_of kvs (u ''has_supporting_facts'') = Some (JBool hs) \<and>
     map_of kvs (u ''inconsistencies'') = Some (JList incs) \<and>
     map_of kvs (u ''supporting_facts'') = Some (JList sups) \<and>
     map_of kvs (u ''confidence'') = Some conf \<and> is_number conf \<and>
     map_of kvs (u ''explanation'') = Some expl \<and> is_str expl \<and>
     check_elements msg_inconsistencies_element incs = Inr () \<and>
     check_elements msg_supporting_facts_element sups = Inr () \<and>
     filter_facts incs = Inr incs' \<and>
     filter_facts sups = Inr sups' \<and>
     kvs1 = AList.update (u ''inconsistencies'') (JList incs') kvs \<and>
     kvs2 = (if incs' = [] then AList.update (u ''has_conflicts'') (JBool False) kvs1 else kvs1) \<and>
     kvs3 = AList.update (u ''supporting_facts'') (JList sups') kvs2 \<and>
     r' = JDict (if sups' = [] then AList.update (u ''has_supporting_facts'') (JBool False) kvs3
                 else kvs3)"
  using assms
  unfolding validate_response_def
  by (clarsimp simp: bnd_eq_Inr is_bool_iff as_list_eq_Inr py_getitem_eq_Inr py_setitem_eq_Inr
      if_Inl_eq_Inr if_setitem_eq_Inr simp del: py_getitem.simps py_setitem.simps
      split del: if_split)


lemma filter_facts_idem: "filter_facts xs = Inr ys \<Longrightarrow> filter_facts ys = Inr ys"
proof (induction xs arbitrary: ys)
  case Nil
  then show ?case by simp
next
  case (Cons x xs)
  from Cons.prems obtain v zs where v: "py_get x (u ''fact'') = Inr v"
    and zs: "filter_facts xs = Inr zs" and ys: "ys = (if truthy v then x # zs else zs)"
    by (auto split: sum.splits)
  from Cons.IH[OF zs] have "filter_facts zs = Inr zs" .
  with v ys show ?case by simp
qed

lemma check_elements_filter:
  "check_elements msg xs = Inr () \<Longrightarrow> filter_facts xs = Inr ys \<Longrightarrow> check_elements msg ys = Inr ()"
proof (induction xs arbitrary: ys)
  case Nil
  then show ?case by simp
next
  case (Cons x xs)
  from Cons.prems(1) have x: "all_in element_fields x = Inr True"
    and xs: "check_elements msg xs = Inr ()"
    by (auto split: sum.splits if_splits)
  from Cons.prems(2) obtain v zs where zs: "filter_facts xs = Inr zs"
    and ys: "ys = (if truthy v then x # zs else zs)"
    by (auto split: sum.splits)
  from Cons.IH[OF xs zs] x ys show ?case by simp
qed

lemma key_distinct:
  "u ''has_conflicts'' \<noteq> u ''inconsistencies''"
  "u ''has_conflicts'' \<noteq> u ''supporting_facts''"
  "u ''has_conflicts'' \<noteq> u ''has_supporting_facts''"
  "u ''has_conflicts'' \<noteq> u ''confidence''"
  "u ''has_conflicts'' \<noteq> u ''explanation''"
  "u ''has_supporting_facts'' \<noteq> u ''inconsistencies''"
  "u ''has_supporting_facts'' \<noteq> u ''supporting_facts''"
  "u ''has_supporting_facts'' \<noteq> u ''confidence''"
  "u ''has_supporting_facts'' \<noteq> u ''explanation''"
  "u ''inconsistencies'' \<noteq> u ''supporting_facts''"
  "u ''inconsistencies'' \<noteq> u ''confidence''"
  "u ''inconsistencies'' \<noteq> u ''explanation''"
  "u ''supporting_facts'' \<noteq> u ''confidence''"
  "u ''supporting_facts'' \<noteq> u ''explanation''"
  "u ''confidence'' \<noteq> u ''explanation''"
  by (simp_all add: u_def)

lemma validate_response_fixed:
  assumes "map_of kvs (u ''has_conflicts'') = Some (JBool hc)"
    and "map_of kvs (u ''has_supporting_facts'') = Some (JBool hs)"
    and "map_of kvs (u ''inconsistencies'') = Some (JList incs)"
    and "map_of kvs (u ''supporting_facts'') = Some (JList sups)"
    and "map_of kvs (u ''confidence'') = Some conf" and "is_number conf"
    and "map_of kvs (u ''explanation'') = Some expl" and "is_str expl"
    and "check_elements msg_inconsistencies_element incs = Inr ()"
    and "check_elements msg_supporting_facts_element sups = Inr ()"
    and "filter_facts incs = Inr incs" and "filter_facts sups = Inr sups"
    and "incs = [] \<longrightarrow> \<not> hc" and "sups = [] \<longrightarrow> \<not> hs"
  shows "validate_response (JDict kvs) = Inr (JDict kvs)"
proof -
  have present: "all_in required_fields (JDict kvs) = Inr True"
    using assms by (simp add: required_fields_def)
  have u1: "AList.update (u ''inconsistencies'') (JList incs) kvs = kvs"
    using assms(3) by (rule update_triv)
  have u2: "AList.update (u ''has_conflicts'') (JBool False) kvs = kvs" if "incs = []"
    using that assms(1,13) by (simp add: update_triv)
  have u3: "AList.update (u ''supporting_facts'') (JList sups) kvs = kvs"
    using assms(4) by (rule update_triv)
  have u4: "AList.update (u ''has_supporting_facts'') (JBool False) kvs = kvs" if "sups = []"
    using that assms(2,14) by (simp add: update_triv)
  show ?thesis
  proof (cases "incs = []")
    case True
    note i = True
    show ?thesis
    proof (cases "sups = []")
      case True
      with i assms present u1 u2 u3 u4 show ?thesis
        unfolding validate_response_def by (simp add: bnd_Inr)
    next
      case False
      with i assms present u1 u2 u3 show ?thesis
        unfolding validate_response_def by (simp add: bnd_Inr)
    qed
  next
    case False
    note i = False
    show ?thesis
    proof (cases "sups = []")
      case True
      with i assms present u1 u3 u4 show ?thesis
        unfolding validate_response_def by (simp add: bnd_Inr)
    next
      case False
      with i assms present u1 u3 show ?thesis
        unfolding validate_response_def by (simp add: bnd_Inr)
    qed
  qed
qed

lemma validate_response_idem:
  assumes "validate_response r = Inr r'"
  shows "validate_response r' = Inr r'"
proof -
  from validate_response_Inr[OF assms]
  obtain kvs hc hs incs sups conf expl incs' sups' kvs1 kvs2 kvs3 where
    r: "r = JDict kvs"
    and hc: "map_of kvs (u ''has_conflicts'') = Some (JBool hc)"
    and hs: "map_of kvs (u ''has_supporting_facts'') = Some (JBool hs)"
    and inc: "map_of kvs (u ''inconsistencies'') = Some (JList incs)"
    and sup: "map_of kvs (u ''supporting_facts'') = Some (JList sups)"
    and conf: "map_of kvs (u ''confidence'') = Some conf" "is_number conf"
    and expl: "map_of kvs (u ''explanation'') = Some expl" "is_str expl"
    and ci: "check_elements msg_inconsistencies_element incs = Inr ()"
    and cs: "check_elements msg_supporting_facts_element sups = Inr ()"
    and fi: "filter_facts incs = Inr incs'"
    and fs: "filter_facts sups = Inr sups'"
    and k1: "kvs1 = AList.update (u ''inconsistencies'') (JList incs') kvs"
    and k2: "kvs2 = (if incs' = [] then AList.update (u ''has_conflicts'') (JBool False) kvs1 else kvs1)"
    and k3: "kvs3 = AList.update (u ''supporting_facts'') (JList sups') kvs2"
    and r': "r' = JDict (if sups' = [] then AList.update (u ''has_supporting_facts'') (JBool False) kvs3
                 else kvs3)"
    by blast
  let ?kvs4 = "if sups' = [] then AList.update (u ''has_supporting_facts'') (JBool False) kvs3 else kvs3"
  have m: "map_of ?kvs4 (u ''has_conflicts'') = Some (JBool (hc \<and> incs' \<noteq> []))"
    "map_of ?kvs4 (u ''has_supporting_facts'') = Some (JBool (hs \<and> sups' \<noteq> []))"
    "map_of ?kvs4 (u ''inconsistencies'') = Some (JList incs')"
    "map_of ?kvs4 (u ''supporting_facts'') = Some (JList sups')"
    "map_of ?kvs4 (u ''confidence'') = Some conf"
    "map_of ?kvs4 (u ''explanation'') = Some expl"
    using hc hs inc sup conf(1) expl(1)
    by (simp_all add: k1 k2 k3 update_conv' key_distinct key_distinct[symmetric])
  have "validate_response (JDict ?kvs4) = Inr (JDict ?kvs4)"
    by (rule validate_response_fixed[OF m(1) m(2) m(3) m(4) m(5) conf(2) m(6) expl(2)
          check_elements_filter[OF ci fi] check_elements_filter[OF cs fs]
          filter_facts_idem[OF fi] filter_facts_idem[OF fs]]) simp_all
  then show ?thesis by (simp only: r')
qed

text \<open>
  Claim C6. Validation is idempotent: when it accepts a response, applying it again to
  the dict that it leaves accepts that dict and leaves it unchanged. This holds for every
  accepted response, and so for those without empty \<open>fact\<close> fields.
\<close>

theorem validate_idempotent:
  assumes "validate_response r = Inr r'"
  shows "validate_response r' = Inr r'"
  using assms by (rule validate_response_idem)

theorem validate_idempotent_witness:
  "validate_response
     (JDict [(u ''has_conflicts'', JBool True), (u ''has_supporting_facts'', JBool True),
        (u ''inconsistencies'',
           JList [JDict [(u ''statement'', JStr (u ''s'')), (u ''fact'', JStr (u ''f'')),
             (u ''explanation'', JStr (u ''e''))]]),
        (u ''supporting_facts'', JList []), (u ''confidence'', JFloat (Fin (1 / 2))),
        (u ''explanation'', JStr (u ''x''))]) =
   Inr (JDict [(u ''has_conflicts'', JBool True), (u ''has_supporting_facts'', JBool False),
        (u ''inconsistencies'',
           JList [JDict [(u ''statement'', JStr (u ''s'')), (u ''fact'', JStr (u ''f'')),
             (u ''explanation'', JStr (u ''e''))]]),
        (u ''supporting_facts'', JList []), (u ''confidence'', JFloat (Fin (1 / 2))),
        (u ''explanation'', JStr (u ''x''))]) \<and>
   validate_response
     (JDict [(u ''has_conflicts'', JBool True), (u ''has_supporting_facts'', JBool False),
        (u ''inconsistencies'',
           JList [JDict [(u ''statement'', JStr (u ''s'')), (u ''fact'', JStr (u ''f'')),
             (u ''explanation'', JStr (u ''e''))]]),
        (u ''supporting_facts'', JList []), (u ''confidence'', JFloat (Fin (1 / 2))),
        (u ''explanation'', JStr (u ''x''))]) =
   Inr (JDict [(u ''has_conflicts'', JBool True), (u ''has_supporting_facts'', JBool False),
        (u ''inconsistencies'',
           JList [JDict [(u ''statement'', JStr (u ''s'')), (u ''fact'', JStr (u ''f'')),
             (u ''explanation'', JStr (u ''e''))]]),
        (u ''supporting_facts'', JList []), (u ''confidence'', JFloat (Fin (1 / 2))),
        (u ''explanation'', JStr (u ''x''))])"
proof -
  have once: "validate_response
     (JDict [(u ''has_conflicts'', JBool True), (u ''has_supporting_facts'', JBool True),
        (u ''inconsistencies'',
           JList [JDict [(u ''statement'', JStr (u ''s'')), (u ''fact'', JStr (u ''f'')),
             (u ''explanation'', JStr (u ''e''))]]),
        (u ''supporting_facts'', JList []), (u ''confidence'', JFloat (Fin (1 / 2))),
        (u ''explanation'', JStr (u ''x''))]) =
   Inr (JDict [(u ''has_conflicts'', JBool True), (u ''has_supporting_facts'', JBool False),
        (u ''inconsistencies'',
           JList [JDict [(u ''statement'', JStr (u ''s'')), (u ''fact'', JStr (u ''f'')),
             (u ''explanation'', JStr (u ''e''))]]),
        (u ''supporting_facts'', JList []), (u ''confidence'', JFloat (Fin (1 / 2))),
        (u ''explanation'', JStr (u ''x''))])"
    by (simp add: validate_response_def required_fields_def element_fields_def bnd_def u_def)
  from validate_idempotent[OF once] once show ?thesis by simp
qed



lemma validate_response_lookup:
  assumes "validate_response r = Inr r'"
  shows "\<exists>kvs kvs' hc hs incs sups conf expl incs' sups'.
     r = JDict kvs \<and> r' = JDict kvs' \<and>
     map_of kvs (u ''has_conflicts'') = Some (JBool hc) \<and>
     map_of kvs (u ''has_supporting_facts'') = Some (JBool hs) \<and>
     map_of kvs (u ''inconsistencies'') = Some (JList incs) \<and>
     map_of kvs (u ''supporting_facts'') = Some (JList sups) \<and>
     filter_facts incs = Inr incs' \<and>
     filter_facts sups = Inr sups' \<and>
     map_of kvs' (u ''has_conflicts'') = Some (JBool (hc \<and> incs' \<noteq> [])) \<and>
     map_of kvs' (u ''has_supporting_facts'') = Some (JBool (hs \<and> sups' \<noteq> [])) \<and>
     map_of kvs' (u ''inconsistencies'') = Some (JList incs') \<and>
     map_of kvs' (u ''supporting_facts'') = Some (JList sups') \<and>
     map_of kvs' (u ''confidence'') = Some conf \<and>
     map_of kvs' (u ''explanation'') = Some expl"
proof -
  from validate_response_Inr[OF assms]
  obtain kvs hc hs incs sups conf expl incs' sups' kvs1 kvs2 kvs3 where
    r: "r = JDict kvs"
    and hc: "map_of kvs (u ''has_conflicts'') = Some (JBool hc)"
    and hs: "map_of kvs (u ''has_supporting_facts'') = Some (JBool hs)"
    and inc: "map_of kvs (u ''inconsistencies'') = Some (JList incs)"
    and sup: "map_of kvs (u ''supporting_facts'') = Some (JList sups)"
    and conf: "map_of kvs (u ''confidence'') = Some conf"
    and expl: "map_of kvs (u ''explanation'') = Some expl"
    and fi: "filter_facts incs = Inr incs'"
    and fs: "filter_facts sups = Inr sups'"
    and k1: "kvs1 = AList.update (u ''inconsistencies'') (JList incs') kvs"
    and k2: "kvs2 = (if incs' = [] then AList.update (u ''has_conflicts'') (JBool False) kvs1 else kvs1)"
    and k3: "kvs3 = AList.update (u ''supporting_facts'') (JList sups') kvs2"
    and r': "r' = JDict (if sups' = [] then AList.update (u ''has_supporting_facts'') (JBool False) kvs3
                 else kvs3)"
    by blast
  let ?kvs4 = "if sups' = [] then AList.update (u ''has_supporting_facts'') (JBool False) kvs3 else kvs3"
  have m: "map_of ?kvs4 (u ''has_conflicts'') = Some (JBool (hc \<and> incs' \<noteq> []))"
    "map_of ?kvs4 (u ''has_supporting_facts'') = Some (JBool (hs \<and> sups' \<noteq> []))"
    "map_of ?kvs4 (u ''inconsistencies'') = Some (JList incs')"
    "map_of ?kvs4 (u ''supporting_facts'') = Some (JList sups')"
    "map_of ?kvs4 (u ''confidence'') = Some conf"
    "map_of ?kvs4 (u ''explanation'') = Some expl"
    using hc hs inc sup conf expl
    by (simp_all add: k1 k2 k3 update_conv' key_distinct key_distinct[symmetric])
  from r r' hc hs inc sup fi fs m show ?thesis by blast
qed

lemma verdict_flags_aux:
  assumes "validate_response r = Inr r'"
  shows "\<exists>v hc0 hs0 incs0 sups0 incs sups.
     parse_llm_response r' facts = Inr v \<and>
     py_getitem r (u ''has_conflicts'') = Inr (JBool hc0) \<and>
     py_getitem r (u ''has_supporting_facts'') = Inr (JBool hs0) \<and>
     py_getitem r (u ''inconsistencies'') = Inr (JList incs0) \<and>
     py_getitem r (u ''supporting_facts'') = Inr (JList sups0) \<and>
     filter_facts incs0 = Inr incs \<and> filter_facts sups0 = Inr sups \<and>
     inconsistencies v = JList incs \<and> supporting_facts v = JList sups \<and>
     has_conflicts v = JBool (hc0 \<and> incs \<noteq> []) \<and>
     has_supporting_facts v = JBool (hs0 \<and> sups \<noteq> [])"
proof -
  from validate_response_lookup[OF assms]
  obtain kvs kvs' hc hs incs sups conf expl incs' sups' where
    f: "r = JDict kvs" "r' = JDict kvs'"
     "map_of kvs (u ''has_conflicts'') = Some (JBool hc)"
     "map_of kvs (u ''has_supporting_facts'') = Some (JBool hs)"
     "map_of kvs (u ''inconsistencies'') = Some (JList incs)"
     "map_of kvs (u ''supporting_facts'') = Some (JList sups)"
     "filter_facts incs = Inr incs'"
     "filter_facts sups = Inr sups'"
     "map_of kvs' (u ''has_conflicts'') = Some (JBool (hc \<and> incs' \<noteq> []))"
     "map_of kvs' (u ''has_supporting_facts'') = Some (JBool (hs \<and> sups' \<noteq> []))"
     "map_of kvs' (u ''inconsistencies'') = Some (JList incs')"
     "map_of kvs' (u ''supporting_facts'') = Some (JList sups')"
     "map_of kvs' (u ''confidence'') = Some conf"
     "map_of kvs' (u ''explanation'') = Some expl"
    by blast
  then show ?thesis
    by (simp add: parse_llm_response_def bnd_def)
qed

text \<open>
  Claim C5, as amended. For every response that validation accepts, the verdict built
  from the validated dict carries the filtered lists, and each flag is true exactly when
  the model's flag was true and the filtered list is not empty. So a true flag comes with a
  list that is not empty, but a list that is not empty does not set the flag.
\<close>

theorem verdict_flags:
  assumes "validate_response r = Inr r'"
  shows "\<exists>v hc0 hs0 incs0 sups0 incs sups.
     parse_llm_response r' facts = Inr v \<and>
     py_getitem r (u ''has_conflicts'') = Inr (JBool hc0) \<and>
     py_getitem r (u ''has_supporting_facts'') = Inr (JBool hs0) \<and>
     py_getitem r (u ''inconsistencies'') = Inr (JList incs0) \<and>
     py_getitem r (u ''supporting_facts'') = Inr (JList sups0) \<and>
     filter_facts incs0 = Inr incs \<and> filter_facts sups0 = Inr sups \<and>
     inconsistencies v = JList incs \<and> supporting_facts v = JList sups \<and>
     has_conflicts v = JBool (hc0 \<and> incs \<noteq> []) \<and>
     has_supporting_facts v = JBool (hs0 \<and> sups \<noteq> [])"
  using assms by (rule verdict_flags_aux)

theorem verdict_flags_witness:
  "validate_response
     (JDict [(u ''has_conflicts'', JBool False), (u ''has_supporting_facts'', JBool False),
        (u ''inconsistencies'',
           JList [JDict [(u ''statement'', JStr (u ''s'')), (u ''fact'', JStr (u ''f'')),
             (u ''explanation'', JStr (u ''e''))]]),
        (u ''supporting_facts'', JList []), (u ''confidence'', JInt 1),
        (u ''explanation'', JStr (u ''x''))]) =
   Inr (JDict [(u ''has_conflicts'', JBool False), (u ''has_supporting_facts'', JBool False),
        (u ''inconsistencies'',
           JList [JDict [(u ''statement'', JStr (u ''s'')), (u ''fact'', JStr (u ''f'')),
             (u ''explanation'', JStr (u ''e''))]]),
        (u ''supporting_facts'', JList []), (u ''confidence'', JInt 1),
        (u ''explanation'', JStr (u ''x''))]) \<and>
   (\<exists>v hc0 hs0 incs0 sups0 incs sups.
     parse_llm_response
       (JDict [(u ''has_conflicts'', JBool False), (u ''has_supporting_facts'', JBool False),
        (u ''inconsistencies'',
           JList [JDict [(u ''statement'', JStr (u ''s'')), (u ''fact'', JStr (u ''f'')),
             (u ''explanation'', JStr (u ''e''))]]),
        (u ''supporting_facts'', JList []), (u ''confidence'', JInt 1),
        (u ''explanation'', JStr (u ''x''))]) [] = Inr v \<and>
     py_getitem
       (JDict [(u ''has_conflicts'', JBool False), (u ''has_supporting_facts'', JBool False),
        (u ''inconsistencies'',
           JList [JDict [(u ''statement'', JStr (u ''s'')), (u ''fact'', JStr (u ''f'')),
             (u ''explanation'', JStr (u ''e''))]]),
        (u ''supporting_facts'', JList []), (u ''confidence'', JInt 1),
        (u ''explanation'', JStr (u ''x''))]) (u ''has_conflicts'') = Inr (JBool hc0) \<and>
     py_getitem
       (JDict [(u ''has_conflicts'', JBool False), (u ''has_supporting_facts'', JBool False),
        (u ''inconsistencies'',
           JList [JDict [(u ''statement'', JStr (u ''s'')), (u ''fact'', JStr (u ''f'')),
             (u ''explanation'', JStr (u ''e''))]]),
        (u ''supporting_facts'', JList []), (u ''confidence'', JInt 1),
        (u ''explanation'', JStr (u ''x''))]) (u ''has_supporting_facts'') = Inr (JBool hs0) \<and>
     py_getitem
       (JDict [(u ''has_conflicts'', JBool False), (u ''has_supporting_facts'', JBool False),
        (u ''inconsistencies'',
           JList [JDict [(u ''statement'', JStr (u ''s'')), (u ''fact'', JStr (u ''f'')),
             (u ''explanation'', JStr (u ''e''))]]),
        (u ''supporting_facts'', JList []), (u ''confidence'', JInt 1),
        (u ''explanation'', JStr (u ''x''))]) (u ''inconsistencies'') = Inr (JList incs0) \<and>
     py_getitem
       (JDict [(u ''has_conflicts'', JBool False), (u ''has_supporting_facts'', JBool False),
        (u ''inconsistencies'',
           JList [JDict [(u ''statement'', JStr (u ''s'')), (u ''fact'', JStr (u ''f'')),
             (u ''explanation'', JStr (u ''e''))]]),
        (u ''supporting_facts'', JList []), (u ''confidence'', JInt 1),
        (u ''explanation'', JStr (u ''x''))]) (u ''supporting_facts'') = Inr (JList sups0) \<and>
     filter_facts incs0 = Inr incs \<and> filter_facts sups0 = Inr sups \<and>
     inconsistencies v = JList incs \<and> supporting_facts v = JList sups \<and>
     has_conflicts v = JBool (hc0 \<and> incs \<noteq> []) \<and>
     has_supporting_facts v = JBool (hs0 \<and> sups \<noteq> []))"
proof -
  have ok: "validate_response
     (JDict [(u ''has_conflicts'', JBool False), (u ''has_supporting_facts'', JBool False),
        (u ''inconsistencies'',
           JList [JDict [(u ''statement'', JStr (u ''s'')), (u ''fact'', JStr (u ''f'')),
             (u ''explanation'', JStr (u ''e''))]]),
        (u ''supporting_facts'', JList []), (u ''confidence'', JInt 1),
        (u ''explanation'', JStr (u ''x''))]) =
   Inr (JDict [(u ''has_conflicts'', JBool False), (u ''has_supporting_facts'', JBool False),
        (u ''inconsistencies'',
           JList [JDict [(u ''statement'', JStr (u ''s'')), (u ''fact'', JStr (u ''f'')),
             (u ''explanation'', JStr (u ''e''))]]),
        (u ''supporting_facts'', JList []), (u ''confidence'', JInt 1),
        (u ''explanation'', JStr (u ''x''))])"
    by (simp add: validate_response_def required_fields_def element_fields_def bnd_def u_def)
  from verdict_flags[OF ok, of "[]"] ok show ?thesis by blast
qed

text \<open>
  Claim C5 as stated fails: the model answers \<open>has_conflicts = false\<close> together with one
  well-formed inconsistency. Validation accepts the answer and changes nothing, and the
  verdict has a false flag next to a list that is not empty.
\<close>

theorem verdict_flags_counterexample:
  "validate_response
     (JDict [(u ''has_conflicts'', JBool False), (u ''has_supporting_facts'', JBool False),
        (u ''inconsistencies'',
           JList [JDict [(u ''statement'', JStr (u ''s'')), (u ''fact'', JStr (u ''f'')),
             (u ''explanation'', JStr (u ''e''))]]),
        (u ''supporting_facts'', JList []), (u ''confidence'', JInt 1),
        (u ''explanation'', JStr (u ''x''))]) =
   Inr (JDict [(u ''has_conflicts'', JBool False), (u ''has_supporting_facts'', JBool False),
        (u ''inconsistencies'',
           JList [JDict [(u ''statement'', JStr (u ''s'')), (u ''fact'', JStr (u ''f'')),
             (u ''explanation'', JStr (u ''e''))]]),
        (u ''supporting_facts'', JList []), (u ''confidence'', JInt 1),
        (u ''explanation'', JStr (u ''x''))]) \<and>
   parse_llm_response
     (JDict [(u ''has_conflicts'', JBool False), (u ''has_supporting_facts'', JBool False),
        (u ''inconsistencies'',
           JList [JDict [(u ''statement'', JStr (u ''s'')), (u ''fact'', JStr (u ''f'')),
             (u ''explanation'', JStr (u ''e''))]]),
        (u ''supporting_facts'', JList []), (u ''confidence'', JInt 1),
        (u ''explanation'', JStr (u ''x''))]) [] =
   Inr \<lparr>has_conflicts = JBool False, has_supporting_facts = JBool False,
        inconsistencies =
          JList [JDict [(u ''statement'', JStr (u ''s'')), (u ''fact'', JStr (u ''f'')),
             (u ''explanation'', JStr (u ''e''))]],
        supporting_facts = JList [], confidence = JInt 1, relevant_facts = [],
        explanation = JStr (u ''x'')\<rparr> \<and>
   JBool False \<noteq>
   JBool (JList [JDict [(u ''statement'', JStr (u ''s'')), (u ''fact'', JStr (u ''f'')),
             (u ''explanation'', JStr (u ''e''))]] \<noteq> JList [])"
  by (simp add: validate_response_def parse_llm_response_def required_fields_def
      element_fields_def bnd_def u_def)

text \<open>
  Claim C1: the code departs from it. The answer below lacks \<open>has_supporting_facts\<close>.
  The list \<open>required_fields\<close> does not name that field, so the test for missing fields
  passes, and reading the field at line 183 raises \<open>KeyError\<close>, which is not a
  \<open>ValueError\<close>: the loop of \<open>check_facts\<close> does not handle it and sends no correction
  call, whatever the raw answer, the gateway and the state are.
\<close>

theorem missing_has_supporting_facts_raises_KeyError:
  "validate_response
     (JDict [(u ''has_conflicts'', JBool False), (u ''inconsistencies'', JList []),
        (u ''supporting_facts'', JList []), (u ''confidence'', JFloat (Fin (1 / 2))),
        (u ''explanation'', JStr (u ''ok''))]) =
   Inl (KeyError (u ''has_supporting_facts'')) \<and>
   parse_loop
     (\<lambda>s. Inr (JDict [(u ''has_conflicts'', JBool False), (u ''inconsistencies'', JList []),
        (u ''supporting_facts'', JList []), (u ''confidence'', JFloat (Fin (1 / 2))),
        (u ''explanation'', JStr (u ''ok''))]))
     svc llm 0 raw w =
   (Inl (KeyError (u ''has_supporting_facts'')), w)"
proof -
  have v: "validate_response
     (JDict [(u ''has_conflicts'', JBool False), (u ''inconsistencies'', JList []),
        (u ''supporting_facts'', JList []), (u ''confidence'', JFloat (Fin (1 / 2))),
        (u ''explanation'', JStr (u ''ok''))]) =
   Inl (KeyError (u ''has_supporting_facts''))"
    by (simp add: validate_response_def required_fields_def bnd_def u_def)
  have "parse_loop
     (\<lambda>s. Inr (JDict [(u ''has_conflicts'', JBool False), (u ''inconsistencies'', JList []),
        (u ''supporting_facts'', JList []), (u ''confidence'', JFloat (Fin (1 / 2))),
        (u ''explanation'', JStr (u ''ok''))]))
     svc llm 0 raw w =
   (Inl (KeyError (u ''has_supporting_facts'')), w)"
    by (subst parse_loop.simps) (simp add: try_parse_def bnd_Inr v)
  with v show ?thesis by simp
qed

text \<open>
  Other inputs on which validation raises an exception that is not a \<open>ValueError\<close>: a
  parsed answer that is a number, an element of \<open>inconsistencies\<close> that is a number, and
  an element that is a list of the three field names, which passes the membership test and
  has no \<open>get\<close> method.
\<close>

lemma validate_response_other_exceptions:
  "validate_response (JInt 5) = Inl TypeError"
  "validate_response
     (JDict [(u ''has_conflicts'', JBool True), (u ''has_supporting_facts'', JBool False),
        (u ''inconsistencies'', JList [JInt 5]), (u ''supporting_facts'', JList []),
        (u ''confidence'', JInt 1), (u ''explanation'', JStr (u ''x''))]) =
   Inl TypeError"
  "validate_response
     (JDict [(u ''has_conflicts'', JBool True), (u ''has_supporting_facts'', JBool False),
        (u ''inconsistencies'',
           JList [JList [JStr (u ''statement''), JStr (u ''fact''), JStr (u ''explanation'')]]),
        (u ''supporting_facts'', JList []), (u ''confidence'', JInt 1),
        (u ''explanation'', JStr (u ''x''))]) =
   Inl AttributeError"
  by (simp_all add: validate_response_def required_fields_def element_fields_def bnd_def u_def)


section \<open>Properties of the gateway\<close>

lemma retry_call_stop:
  "stop_after \<le> k \<Longrightarrow>
   retry_call stop_after wt k f w =
     (case f w of (Inr v, w1) \<Rightarrow> (Inr v, w1) | (Inl e, w1) \<Rightarrow> (Inl (RetryError e), w1))"
  by (subst retry_call.simps) (simp split: prod.splits sum.splits)

lemma retry_call_more:
  "k < stop_after \<Longrightarrow>
   retry_call stop_after wt k f w =
     (case f w of
        (Inr v, w1) \<Rightarrow> (Inr v, w1)
      | (Inl e, w1) \<Rightarrow>
          retry_call stop_after wt (Suc k) f (w1\<lparr>sleeps := sleeps w1 @ [wt k]\<rparr>))"
  by (subst retry_call.simps) (simp split: prod.splits sum.splits)

lemma retry1_cases:
  "retry 1 wt f w =
     (case f w of (Inr v, w1) \<Rightarrow> (Inr v, w1) | (Inl e, w1) \<Rightarrow> (Inl (RetryError e), w1))"
  unfolding retry_def by (rule retry_call_stop) simp

lemma retry3_cases:
  "retry 3 wt f w =
     (case f w of
        (Inr v, w1) \<Rightarrow> (Inr v, w1)
      | (Inl e1, w1) \<Rightarrow>
          (case f (w1\<lparr>sleeps := sleeps w1 @ [wt 1]\<rparr>) of
             (Inr v, w2) \<Rightarrow> (Inr v, w2)
           | (Inl e2, w2) \<Rightarrow>
               (case f (w2\<lparr>sleeps := sleeps w2 @ [wt 2]\<rparr>) of
                  (Inr v, w3) \<Rightarrow> (Inr v, w3)
                | (Inl e3, w3) \<Rightarrow> (Inl (RetryError e3), w3))))"
proof -
  have s1: "Suc 1 = 2" and s2: "Suc 2 = 3" by simp_all
  have third: "retry_call 3 wt 3 f x =
      (case f x of (Inr v, w1) \<Rightarrow> (Inr v, w1) | (Inl e, w1) \<Rightarrow> (Inl (RetryError e), w1))"
    for x by (rule retry_call_stop) simp
  have second: "retry_call 3 wt 2 f x =
      (case f x of
         (Inr v, w1) \<Rightarrow> (Inr v, w1)
       | (Inl e, w1) \<Rightarrow> retry_call 3 wt 3 f (w1\<lparr>sleeps := sleeps w1 @ [wt 2]\<rparr>))"
    for x using retry_call_more[of 2 3 wt f x, unfolded s2] by simp
  have first: "retry_call 3 wt 1 f x =
      (case f x of
         (Inr v, w1) \<Rightarrow> (Inr v, w1)
       | (Inl e, w1) \<Rightarrow> retry_call 3 wt 2 f (w1\<lparr>sleeps := sleeps w1 @ [wt 1]\<rparr>))"
    for x using retry_call_more[of 1 3 wt f x, unfolded s1] by simp
  show ?thesis
    unfolding retry_def first second third ..
qed

lemma wait_exponential_first: "wait_exponential 1 4 10 1 = 4"
  by (simp add: wait_exponential_def)

lemma wait_exponential_second: "wait_exponential 1 4 10 2 = 4"
  by (simp add: wait_exponential_def)

lemma wait_exponential_bounds:
  "4 \<le> wait_exponential 1 4 10 k \<and> wait_exponential 1 4 10 k \<le> 10"
  by (simp add: wait_exponential_def)

lemma retry1_chat:
  "retry 1 wt (chat_completions_create svc rq) w =
     (case chat_reply svc (length (chat_log w)) rq of
        Inr v \<Rightarrow> (Inr v, w\<lparr>chat_log := chat_log w @ [rq]\<rparr>)
      | Inl e \<Rightarrow> (Inl (RetryError e), w\<lparr>chat_log := chat_log w @ [rq]\<rparr>))"
  unfolding retry1_cases chat_completions_create_def by (simp split: sum.splits)

lemma retry3_chat:
  "retry 3 (wait_exponential 1 4 10) (chat_completions_create svc rq) w =
     (case chat_reply svc (length (chat_log w)) rq of
        Inr v \<Rightarrow> (Inr v, w\<lparr>chat_log := chat_log w @ [rq]\<rparr>)
      | Inl e1 \<Rightarrow>
          (case chat_reply svc (length (chat_log w) + 1) rq of
             Inr v \<Rightarrow> (Inr v, w\<lparr>chat_log := chat_log w @ [rq, rq], sleeps := sleeps w @ [4]\<rparr>)
           | Inl e2 \<Rightarrow>
               (case chat_reply svc (length (chat_log w) + 2) rq of
                  Inr v \<Rightarrow>
                    (Inr v,
                     w\<lparr>chat_log := chat_log w @ [rq, rq, rq], sleeps := sleeps w @ [4, 4]\<rparr>)
                | Inl e3 \<Rightarrow>
                    (Inl (RetryError e3),
                     w\<lparr>chat_log := chat_log w @ [rq, rq, rq], sleeps := sleeps w @ [4, 4]\<rparr>))))"
  unfolding retry3_cases chat_completions_create_def wait_exponential_first
    wait_exponential_second
  by (simp split: sum.splits)

lemma retry3_emb:
  "retry 3 (wait_exponential 1 4 10) (embeddings_create svc text) w =
     (case emb_reply svc (length (emb_log w)) text of
        Inr v \<Rightarrow> (Inr v, w\<lparr>emb_log := emb_log w @ [text]\<rparr>)
      | Inl e1 \<Rightarrow>
          (case emb_reply svc (length (emb_log w) + 1) text of
             Inr v \<Rightarrow> (Inr v, w\<lparr>emb_log := emb_log w @ [text, text], sleeps := sleeps w @ [4]\<rparr>)
           | Inl e2 \<Rightarrow>
               (case emb_reply svc (length (emb_log w) + 2) text of
                  Inr v \<Rightarrow>
                    (Inr v,
                     w\<lparr>emb_log := emb_log w @ [text, text, text], sleeps := sleeps w @ [4, 4]\<rparr>)
                | Inl e3 \<Rightarrow>
                    (Inl (RetryError e3),
                     w\<lparr>emb_log := emb_log w @ [text, text, text],
                       sleeps := sleeps w @ [4, 4]\<rparr>))))"
  unfolding retry3_cases embeddings_create_def wait_exponential_first
    wait_exponential_second
  by (simp split: sum.splits)

lemma request_gpt_cases:
  "request_gpt svc self prompt system_prompt temperature max_tokens w =
     (let rq = gpt_request self prompt system_prompt temperature max_tokens;
          n = length (chat_log w)
      in case chat_reply svc n rq of
           Inr v \<Rightarrow> (Inr v, w\<lparr>chat_log := chat_log w @ [rq]\<rparr>)
         | Inl e1 \<Rightarrow>
             (case chat_reply svc (n + 1) rq of
                Inr v \<Rightarrow>
                  (Inr v, w\<lparr>chat_log := chat_log w @ [rq, rq], sleeps := sleeps w @ [4]\<rparr>)
              | Inl e2 \<Rightarrow>
                  (case chat_reply svc (n + 2) rq of
                     Inr v \<Rightarrow>
                       (Inr v,
                        w\<lparr>chat_log := chat_log w @ [rq, rq, rq],
                          sleeps := sleeps w @ [4, 4]\<rparr>)
                   | Inl e3 \<Rightarrow>
                       (Inl (RetryError e3),
                        w\<lparr>chat_log := chat_log w @ [rq, rq, rq],
                          sleeps := sleeps w @ [4, 4]\<rparr>))))"
  unfolding request_gpt_def Let_def by (rule retry3_chat)

lemma request_gpt_async_cases:
  "request_gpt_async svc self prompt system_prompt temperature max_tokens w =
     (let rq = gpt_request self prompt system_prompt temperature max_tokens;
          n = length (chat_log w)
      in case chat_reply svc n rq of
           Inr v \<Rightarrow> (Inr v, w\<lparr>chat_log := chat_log w @ [rq]\<rparr>)
         | Inl e1 \<Rightarrow>
             (case chat_reply svc (n + 1) rq of
                Inr v \<Rightarrow>
                  (Inr v, w\<lparr>chat_log := chat_log w @ [rq, rq], sleeps := sleeps w @ [4]\<rparr>)
              | Inl e2 \<Rightarrow>
                  (case chat_reply svc (n + 2) rq of
                     Inr v \<Rightarrow>
                       (Inr v,
                        w\<lparr>chat_log := chat_log w @ [rq, rq, rq],
                          sleeps := sleeps w @ [4, 4]\<rparr>)
                   | Inl e3 \<Rightarrow>
                       (Inl (RetryError e3),
                        w\<lparr>chat_log := chat_log w @ [rq, rq, rq],
                          sleeps := sleeps w @ [4, 4]\<rparr>))))"
  unfolding request_gpt_async_def Let_def by (rule retry3_chat)

lemma request_emb_cases:
  "request_emb svc self text w =
     (let n = length (emb_log w)
      in case emb_reply svc n text of
           Inr v \<Rightarrow> (Inr v, w\<lparr>emb_log := emb_log w @ [text]\<rparr>)
         | Inl e1 \<Rightarrow>
             (case emb_reply svc (n + 1) text of
                Inr v \<Rightarrow>
                  (Inr v, w\<lparr>emb_log := emb_log w @ [text, text], sleeps := sleeps w @ [4]\<rparr>)
              | Inl e2 \<Rightarrow>
                  (case emb_reply svc (n + 2) text of
                     Inr v \<Rightarrow>
                       (Inr v,
                        w\<lparr>emb_log := emb_log w @ [text, text, text],
                          sleeps := sleeps w @ [4, 4]\<rparr>)
                   | Inl e3 \<Rightarrow>
                       (Inl (RetryError e3),
                        w\<lparr>emb_log := emb_log w @ [text, text, text],
                          sleeps := sleeps w @ [4, 4]\<rparr>))))"
  unfolding request_emb_def Let_def by (rule retry3_emb)

lemma analyze_consistency_cases:
  "analyze_consistency svc self prompt system_prompt temperature max_tokens w =
     (let rq = consistency_request self prompt system_prompt temperature max_tokens
      in case chat_reply svc (length (chat_log w)) rq of
           Inr v \<Rightarrow> (Inr v, w\<lparr>chat_log := chat_log w @ [rq]\<rparr>)
         | Inl e \<Rightarrow> (Inl (RetryError e), w\<lparr>chat_log := chat_log w @ [rq]\<rparr>))"
  unfolding analyze_consistency_def Let_def by (rule retry1_chat)

text \<open>
  Claim C8. A completion or embedding call makes a first attempt and, as long as the
  attempt fails (with any exception of the client), a second and a third one; the two
  delays in between are \<open>wait_exponential 1 4 10\<close> of the attempt number, which is 4
  seconds both times and lies between 4 and 10 seconds for every attempt number. After the
  third failure the call fails with \<open>RetryError\<close> around the last exception.
  \<open>analyze_consistency\<close> makes one attempt and fails with \<open>RetryError\<close> when it fails.
\<close>

theorem gateway_retry_policy:
  "request_gpt svc self prompt system_prompt temperature max_tokens w =
     (let rq = gpt_request self prompt system_prompt temperature max_tokens;
          n = length (chat_log w)
      in case chat_reply svc n rq of
           Inr v \<Rightarrow> (Inr v, w\<lparr>chat_log := chat_log w @ [rq]\<rparr>)
         | Inl e1 \<Rightarrow>
             (case chat_reply svc (n + 1) rq of
                Inr v \<Rightarrow>
                  (Inr v, w\<lparr>chat_log := chat_log w @ [rq, rq], sleeps := sleeps w @ [4]\<rparr>)
              | Inl e2 \<Rightarrow>
                  (case chat_reply svc (n + 2) rq of
                     Inr v \<Rightarrow>
                       (Inr v,
                        w\<lparr>chat_log := chat_log w @ [rq, rq, rq],
                          sleeps := sleeps w @ [4, 4]\<rparr>)
                   | Inl e3 \<Rightarrow>
                       (Inl (RetryError e3),
                        w\<lparr>chat_log := chat_log w @ [rq, rq, rq],
                          sleeps := sleeps w @ [4, 4]\<rparr>)))) \<and>
   request_gpt_async svc self prompt system_prompt temperature max_tokens w =
     (let rq = gpt_request self prompt system_prompt temperature max_tokens;
          n = length (chat_log w)
      in case chat_reply svc n rq of
           Inr v \<Rightarrow> (Inr v, w\<lparr>chat_log := chat_log w @ [rq]\<rparr>)
         | Inl e1 \<Rightarrow>
             (case chat_reply svc (n + 1) rq of
                Inr v \<Rightarrow>
                  (Inr v, w\<lparr>chat_log := chat_log w @ [rq, rq], sleeps := sleeps w @ [4]\<rparr>)
              | Inl e2 \<Rightarrow>
                  (case chat_reply svc (n + 2) rq of
                     Inr v \<Rightarrow>
                       (Inr v,
                        w\<lparr>chat_log := chat_log w @ [rq, rq, rq],
                          sleeps := sleeps w @ [4, 4]\<rparr>)
                   | Inl e3 \<Rightarrow>
                       (Inl (RetryError e3),
                        w\<lparr>chat_log := chat_log w @ [rq, rq, rq],
                          sleeps := sleeps w @ [4, 4]\<rparr>)))) \<and>
   request_emb svc self text w =
     (let n = length (emb_log w)
      in case emb_reply svc n text of
           Inr v \<Rightarrow> (Inr v, w\<lparr>emb_log := emb_log w @ [text]\<rparr>)
         | Inl e1 \<Rightarrow>
             (case emb_reply svc (n + 1) text of
                Inr v \<Rightarrow>
                  (Inr v, w\<lparr>emb_log := emb_log w @ [text, text], sleeps := sleeps w @ [4]\<rparr>)
              | Inl e2 \<Rightarrow>
                  (case emb_reply svc (n + 2) text of
                     Inr v \<Rightarrow>
                       (Inr v,
                        w\<lparr>emb_log := emb_log w @ [text, text, text],
                          sleeps := sleeps w @ [4, 4]\<rparr>)
                   | Inl e3 \<Rightarrow>
                       (Inl (RetryError e3),
                        w\<lparr>emb_log := emb_log w @ [text, text, text],
                          sleeps := sleeps w @ [4, 4]\<rparr>)))) \<and>
   analyze_consistency svc self prompt system_prompt' temperature max_tokens w =
     (let rq = consistency_request self prompt system_prompt' temperature max_tokens
      in case chat_reply svc (length (chat_log w)) rq of
           Inr v \<Rightarrow> (Inr v, w\<lparr>chat_log := chat_log w @ [rq]\<rparr>)
         | Inl e \<Rightarrow> (Inl (RetryError e), w\<lparr>chat_log := chat_log w @ [rq]\<rparr>)) \<and>
   wait_exponential 1 4 10 1 = 4 \<and> wait_exponential 1 4 10 2 = 4 \<and>
   4 \<le> wait_exponential 1 4 10 k \<and> wait_exponential 1 4 10 k \<le> 10"
  using request_gpt_cases[of svc self prompt system_prompt temperature max_tokens w]
    request_gpt_async_cases[of svc self prompt system_prompt temperature max_tokens w]
    request_emb_cases[of svc self "text" w]
    analyze_consistency_cases[of svc self prompt system_prompt' temperature max_tokens w]
    wait_exponential_first wait_exponential_second wait_exponential_bounds[of k]
  by (intro conjI) simp_all

theorem gateway_retry_policy_witness:
  "request_gpt \<lparr>chat_reply = (\<lambda>n rq. Inl (APIError (u ''timeout''))),
       emb_reply = (\<lambda>n t. Inl (APIError (u ''timeout'')))\<rparr>
     (YandexCloudLLM_init (u ''b1g'') (u ''yandexgpt-lite'') (u ''gpt'')
          (Fin (1 / 10)) 1000 30) (u ''hi'') None None None
     \<lparr>chat_log = [], emb_log = [], sleeps = [], cache = []\<rparr> =
   (Inl (RetryError (APIError (u ''timeout''))),
    \<lparr>chat_log =
       [gpt_request (YandexCloudLLM_init (u ''b1g'') (u ''yandexgpt-lite'') (u ''gpt'')
          (Fin (1 / 10)) 1000 30) (u ''hi'') None None None,
        gpt_request (YandexCloudLLM_init (u ''b1g'') (u ''yandexgpt-lite'') (u ''gpt'')
          (Fin (1 / 10)) 1000 30) (u ''hi'') None None None,
        gpt_request (YandexCloudLLM_init (u ''b1g'') (u ''yandexgpt-lite'') (u ''gpt'')
          (Fin (1 / 10)) 1000 30) (u ''hi'') None None None],
     emb_log = [], sleeps = [4, 4], cache = []\<rparr>) \<and>
   analyze_consistency \<lparr>chat_reply = (\<lambda>n rq. Inl (APIError (u ''timeout''))),
       emb_reply = (\<lambda>n t. Inl (APIError (u ''timeout'')))\<rparr>
     (YandexCloudLLM_init (u ''b1g'') (u ''yandexgpt-lite'') (u ''gpt'')
          (Fin (1 / 10)) 1000 30) (u ''hi'') (u ''sys'') None None
     \<lparr>chat_log = [], emb_log = [], sleeps = [], cache = []\<rparr> =
   (Inl (RetryError (APIError (u ''timeout''))),
    \<lparr>chat_log =
       [consistency_request (YandexCloudLLM_init (u ''b1g'') (u ''yandexgpt-lite'') (u ''gpt'')
          (Fin (1 / 10)) 1000 30) (u ''hi'') (u ''sys'') None None],
     emb_log = [], sleeps = [], cache = []\<rparr>)"
  using gateway_retry_policy[of
      "\<lparr>chat_reply = (\<lambda>n rq. Inl (APIError (u ''timeout''))),
       emb_reply = (\<lambda>n t. Inl (APIError (u ''timeout'')))\<rparr>"
      "(YandexCloudLLM_init (u ''b1g'') (u ''yandexgpt-lite'') (u ''gpt'')
          (Fin (1 / 10)) 1000 30)" "u ''hi''" None None None
      "\<lparr>chat_log = [], emb_log = [], sleeps = [], cache = []\<rparr>" "[]" "u ''sys''" 1]
  by (simp add: Let_def)

lemma float_or_zero: "float_or (Some (Fin 0)) d = d"
  by (simp add: float_or_def float_truthy_def)

lemma int_or_zero: "int_or (Some 0) d = d"
  by (simp add: int_or_def)

lemma sent_by_analyze_consistency:
  "set (drop (length (chat_log w))
          (chat_log (snd (analyze_consistency svc self prompt system_prompt temperature
             max_tokens w)))) =
   {consistency_request self prompt system_prompt temperature max_tokens}"
  by (simp add: analyze_consistency_cases Let_def split: sum.splits)

lemma sent_by_request_gpt:
  "set (drop (length (chat_log w))
          (chat_log (snd (request_gpt svc self prompt system_prompt temperature max_tokens w)))) =
   {gpt_request self prompt system_prompt temperature max_tokens}"
  by (simp add: request_gpt_cases Let_def split: sum.splits)

lemma sent_by_request_gpt_async:
  "set (drop (length (chat_log w))
          (chat_log (snd (request_gpt_async svc self prompt system_prompt temperature
             max_tokens w)))) =
   {gpt_request self prompt system_prompt temperature max_tokens}"
  by (simp add: request_gpt_async_cases Let_def split: sum.splits)

text \<open>
  Claim C10. Every request that \<open>analyze_consistency\<close>, \<open>request_gpt\<close> and
  \<open>request_gpt_async\<close> send is the one built from their arguments, and in that request a
  temperature argument of 0 is replaced by the temperature of the instance and a
  \<open>max_tokens\<close> argument of 0 by the \<open>max_tokens\<close> of the instance, exactly as for a
  missing argument. For an instance made with the defaults of the constructor these are
  0.1 and 1000.
\<close>

theorem zero_override_replaced_by_default:
  "set (drop (length (chat_log w))
          (chat_log (snd (analyze_consistency svc self prompt system_prompt' temperature
             max_tokens w)))) =
     {consistency_request self prompt system_prompt' temperature max_tokens} \<and>
   set (drop (length (chat_log w))
          (chat_log (snd (request_gpt svc self prompt system_prompt temperature max_tokens w)))) =
     {gpt_request self prompt system_prompt temperature max_tokens} \<and>
   set (drop (length (chat_log w))
          (chat_log (snd (request_gpt_async svc self prompt system_prompt temperature
             max_tokens w)))) =
     {gpt_request self prompt system_prompt temperature max_tokens} \<and>
   rq_temperature (consistency_request self prompt system_prompt' (Some (Fin 0)) max_tokens) =
     llm_temperature self \<and>
   rq_max_tokens (consistency_request self prompt system_prompt' temperature (Some 0)) =
     llm_max_tokens self \<and>
   rq_temperature (gpt_request self prompt system_prompt (Some (Fin 0)) max_tokens) =
     llm_temperature self \<and>
   rq_max_tokens (gpt_request self prompt system_prompt temperature (Some 0)) =
     llm_max_tokens self \<and>
   consistency_request self prompt system_prompt' (Some (Fin 0)) (Some 0) =
     consistency_request self prompt system_prompt' None None \<and>
   gpt_request self prompt system_prompt (Some (Fin 0)) (Some 0) =
     gpt_request self prompt system_prompt None None \<and>
   llm_temperature (YandexCloudLLM_init folder_id model_uri model_type (Fin (1 / 10)) 1000 30) =
     Fin (1 / 10) \<and>
   llm_max_tokens (YandexCloudLLM_init folder_id model_uri model_type (Fin (1 / 10)) 1000 30) =
     1000"
proof (intro conjI)
  show "set (drop (length (chat_log w))
          (chat_log (snd (analyze_consistency svc self prompt system_prompt' temperature
             max_tokens w)))) =
     {consistency_request self prompt system_prompt' temperature max_tokens}"
    by (rule sent_by_analyze_consistency)
  show "set (drop (length (chat_log w))
          (chat_log (snd (request_gpt svc self prompt system_prompt temperature max_tokens w)))) =
     {gpt_request self prompt system_prompt temperature max_tokens}"
    by (rule sent_by_request_gpt)
  show "set (drop (length (chat_log w))
          (chat_log (snd (request_gpt_async svc self prompt system_prompt temperature
             max_tokens w)))) =
     {gpt_request self prompt system_prompt temperature max_tokens}"
    by (rule sent_by_request_gpt_async)
qed (simp_all add: consistency_request_def gpt_request_def float_or_def int_or_def
      float_truthy_def YandexCloudLLM_init_def)

theorem zero_override_replaced_by_default_witness:
  "chat_log (snd (analyze_consistency \<lparr>chat_reply = (\<lambda>n rq. Inr (u ''{}'')), emb_reply = (\<lambda>n t. Inr [])\<rparr>
      (YandexCloudLLM_init (u ''b1g'') (u ''yandexgpt-lite'') (u ''gpt'')
          (Fin (1 / 10)) 1000 30) (u ''hi'') (u ''sys'') (Some (Fin 0)) (Some 0)
      \<lparr>chat_log = [], emb_log = [], sleeps = [], cache = []\<rparr>)) =
   [\<lparr>rq_model = u ''gpt://b1g/yandexgpt-lite/latest'',
     rq_messages = [(u ''system'', u ''sys''), (u ''user'', u ''hi'')],
     rq_temperature = Fin (1 / 10), rq_max_tokens = 1000, rq_timeout = 30\<rparr>] \<and>
   chat_log (snd (request_gpt \<lparr>chat_reply = (\<lambda>n rq. Inr (u ''{}'')), emb_reply = (\<lambda>n t. Inr [])\<rparr>
      (YandexCloudLLM_init (u ''b1g'') (u ''yandexgpt-lite'') (u ''gpt'')
          (Fin (1 / 10)) 1000 30) (u ''hi'') None (Some (Fin 0)) (Some 0)
      \<lparr>chat_log = [], emb_log = [], sleeps = [], cache = []\<rparr>)) =
   [\<lparr>rq_model = u ''gpt://b1g/yandexgpt-lite/latest'',
     rq_messages = [(u ''user'', u ''hi'')],
     rq_temperature = Fin (1 / 10), rq_max_tokens = 1000, rq_timeout = 30\<rparr>]"
proof -
  have a: "chat_log (snd (analyze_consistency \<lparr>chat_reply = (\<lambda>n rq. Inr (u ''{}'')), emb_reply = (\<lambda>n t. Inr [])\<rparr>
      (YandexCloudLLM_init (u ''b1g'') (u ''yandexgpt-lite'') (u ''gpt'')
          (Fin (1 / 10)) 1000 30) (u ''hi'') (u ''sys'') (Some (Fin 0)) (Some 0)
      \<lparr>chat_log = [], emb_log = [], sleeps = [], cache = []\<rparr>)) =
    [consistency_request (YandexCloudLLM_init (u ''b1g'') (u ''yandexgpt-lite'') (u ''gpt'')
          (Fin (1 / 10)) 1000 30) (u ''hi'') (u ''sys'') (Some (Fin 0)) (Some 0)]"
    by (simp add: analyze_consistency_cases Let_def)
  have b: "chat_log (snd (request_gpt \<lparr>chat_reply = (\<lambda>n rq. Inr (u ''{}'')), emb_reply = (\<lambda>n t. Inr [])\<rparr>
      (YandexCloudLLM_init (u ''b1g'') (u ''yandexgpt-lite'') (u ''gpt'')
          (Fin (1 / 10)) 1000 30) (u ''hi'') None (Some (Fin 0)) (Some 0)
      \<lparr>chat_log = [], emb_log = [], sleeps = [], cache = []\<rparr>)) =
    [gpt_request (YandexCloudLLM_init (u ''b1g'') (u ''yandexgpt-lite'') (u ''gpt'')
          (Fin (1 / 10)) 1000 30) (u ''hi'') None (Some (Fin 0)) (Some 0)]"
    by (simp add: request_gpt_cases Let_def)
  from zero_override_replaced_by_default[of
      "\<lparr>chat_log = [], emb_log = [], sleeps = [], cache = []\<rparr>"
      "\<lparr>chat_reply = (\<lambda>n rq. Inr (u ''{}'')), emb_reply = (\<lambda>n t. Inr [])\<rparr>"
      "(YandexCloudLLM_init (u ''b1g'') (u ''yandexgpt-lite'') (u ''gpt'')
          (Fin (1 / 10)) 1000 30)" "u ''hi''" "u ''sys''" "Some (Fin 0)" "Some 0" None "u ''b1g''"
      "u ''yandexgpt-lite''" "u ''gpt''"]
  have "consistency_request (YandexCloudLLM_init (u ''b1g'') (u ''yandexgpt-lite'') (u ''gpt'')
          (Fin (1 / 10)) 1000 30) (u ''hi'') (u ''sys'') (Some (Fin 0)) (Some 0) =
      consistency_request (YandexCloudLLM_init (u ''b1g'') (u ''yandexgpt-lite'') (u ''gpt'')
          (Fin (1 / 10)) 1000 30) (u ''hi'') (u ''sys'') None None"
    and "gpt_request (YandexCloudLLM_init (u ''b1g'') (u ''yandexgpt-lite'') (u ''gpt'')
          (Fin (1 / 10)) 1000 30) (u ''hi'') None (Some (Fin 0)) (Some 0) =
      gpt_request (YandexCloudLLM_init (u ''b1g'') (u ''yandexgpt-lite'') (u ''gpt'')
          (Fin (1 / 10)) 1000 30) (u ''hi'') None None None"
    by simp_all
  with a b show ?thesis
    by (simp add: consistency_request_def gpt_request_def float_or_def int_or_def
        float_truthy_def YandexCloudLLM_init_def u_def)
qed


section \<open>Properties of the embedding cache\<close>

lemma request_emb_cache: "cache (snd (request_emb svc m t w)) = cache w"
  by (simp add: request_emb_cases Let_def split: sum.splits)

lemma get_query_embedding_hit:
  "map_of (cache w) k = Some v \<Longrightarrow> get_query_embedding svc m k w = (Inr v, w)"
  by (simp add: get_query_embedding_def)

lemma get_text_embedding_hit:
  "map_of (cache w) k = Some v \<Longrightarrow> get_text_embedding svc m k w = (Inr v, w)"
  by (simp add: get_text_embedding_def)

lemma get_query_embedding_keeps:
  assumes "map_of (cache w) k = Some v"
  shows "map_of (cache (snd (get_query_embedding svc m q w))) k = Some v"
proof (cases "map_of (cache w) q")
  case (Some x)
  with assms show ?thesis by (simp add: get_query_embedding_def)
next
  case None
  with assms have "q \<noteq> k" by auto
  with None assms request_emb_cache[of svc m q w] show ?thesis
    by (cases "request_emb svc m q w")
       (auto simp: get_query_embedding_def update_conv' split: sum.splits)
qed

lemma get_text_embedding_keeps:
  assumes "map_of (cache w) k = Some v"
  shows "map_of (cache (snd (get_text_embedding svc m q w))) k = Some v"
proof (cases "map_of (cache w) q")
  case (Some x)
  with assms show ?thesis by (simp add: get_text_embedding_def)
next
  case None
  with assms have "q \<noteq> k" by auto
  with None assms request_emb_cache[of svc m q w] show ?thesis
    by (cases "request_emb svc m q w")
       (auto simp: get_text_embedding_def update_conv' split: sum.splits)
qed

lemma emb_step_keeps:
  "map_of (cache w) k = Some v \<Longrightarrow> map_of (cache (snd (emb_step svc m op w))) k = Some v"
  by (cases op)
     (simp_all add: aget_query_embedding_def get_query_embedding_keeps get_text_embedding_keeps)

lemma emb_run_keeps:
  "map_of (cache w) k = Some v \<Longrightarrow> map_of (cache (emb_run svc m ops w)) k = Some v"
proof (induction ops arbitrary: w)
  case Nil
  then show ?case by simp
next
  case (Cons op ops)
  from Cons.prems have "map_of (cache (snd (emb_step svc m op w))) k = Some v"
    by (rule emb_step_keeps)
  then show ?case by (simp add: Cons.IH)
qed

text \<open>
  Claim C9. When a text is a key of the cache, each of the three embedding requests
  returns the stored vector and leaves the whole state as it is, so nothing is sent to the
  remote service; and after any run of embedding requests, executed one after the other,
  the key still has the same vector.
\<close>

theorem cache_write_once:
  assumes "map_of (cache w) k = Some v"
  shows "get_query_embedding svc m k w = (Inr v, w) \<and>
         aget_query_embedding svc m k w = (Inr v, w) \<and>
         get_text_embedding svc m k w = (Inr v, w) \<and>
         map_of (cache (emb_run svc m ops w)) k = Some v"
  using assms
  by (simp add: get_query_embedding_hit get_text_embedding_hit aget_query_embedding_def
      emb_run_keeps)

theorem cache_write_once_witness:
  "map_of (cache \<lparr>chat_log = [], emb_log = [], sleeps = [], cache = [(u ''q'', [Fin 1])]\<rparr>) (u ''q'') = Some [Fin 1] \<and>
   get_query_embedding \<lparr>chat_reply = (\<lambda>n rq. Inr (u ''{}'')), emb_reply = (\<lambda>n t. Inr [Fin 2])\<rparr>
     (YandexCloudLLM_init (u ''b1g'') (u ''text-search-doc'') (u ''emb'')
          (Fin (1 / 10)) 1000 30) (u ''q'')
     \<lparr>chat_log = [], emb_log = [], sleeps = [], cache = [(u ''q'', [Fin 1])]\<rparr> =
   (Inr [Fin 1], \<lparr>chat_log = [], emb_log = [], sleeps = [], cache = [(u ''q'', [Fin 1])]\<rparr>) \<and>
   map_of (cache (emb_run \<lparr>chat_reply = (\<lambda>n rq. Inr (u ''{}'')), emb_reply = (\<lambda>n t. Inr [Fin 2])\<rparr>
     (YandexCloudLLM_init (u ''b1g'') (u ''text-search-doc'') (u ''emb'')
          (Fin (1 / 10)) 1000 30)
     [QueryEmbedding (u ''z''), TextEmbedding (u ''q''), AQueryEmbedding (u ''z'')]
     \<lparr>chat_log = [], emb_log = [], sleeps = [], cache = [(u ''q'', [Fin 1])]\<rparr>)) (u ''q'') = Some [Fin 1]"
proof -
  have h: "map_of (cache \<lparr>chat_log = [], emb_log = [], sleeps = [], cache = [(u ''q'', [Fin 1])]\<rparr>) (u ''q'') = Some [Fin 1]"
    by simp
  from cache_write_once[OF h] h show ?thesis by blast
qed

section \<open>Properties of retrieval\<close>

text \<open>
  Claim C7, as amended. With the reranker disabled, \<open>get_retrieved_nodes\<close> (both copies)
  returns what the retriever returns, in the same order and in full, whatever
  \<open>reranker_top_n\<close> is.
\<close>

theorem reranker_disabled_returns_all:
  "get_retrieved_nodes retrieve postprocess_nodes query_str vector_top_k reranker_top_n False w =
     retrieve query_str vector_top_k w \<and>
   main_get_retrieved_nodes retrieve postprocess_nodes query_str vector_top_k reranker_top_n
     False w =
     retrieve query_str vector_top_k w"
  by (simp add: get_retrieved_nodes_def main_get_retrieved_nodes_def
      split: prod.splits sum.splits)

theorem reranker_disabled_returns_all_witness:
  "get_retrieved_nodes (\<lambda>q k w. (Inr [1, 2, 3, 4, 5 :: nat], w))
     (\<lambda>n xs q w. (Inr (take (nat n) xs), w)) (u ''q'') 10 3 False
     \<lparr>chat_log = [], emb_log = [], sleeps = [], cache = []\<rparr> =
   (Inr [1, 2, 3, 4, 5], \<lparr>chat_log = [], emb_log = [], sleeps = [], cache = []\<rparr>)"
  using reranker_disabled_returns_all[of
      "(\<lambda>q k w. (Inr [1, 2, 3, 4, 5 :: nat], w))"
      "(\<lambda>n xs q w. (Inr (take (nat n) xs), w))" "u ''q''" 10 3
      "\<lparr>chat_log = [], emb_log = [], sleeps = [], cache = []\<rparr>"]
  by simp

text \<open>
  Claim C7 as stated fails: the retriever yields five candidates, \<open>reranker_top_n\<close> is 3
  and the reranker is disabled; all five candidates come back.
\<close>

theorem reranker_disabled_counterexample:
  "get_retrieved_nodes (\<lambda>q k w. (Inr [1, 2, 3, 4, 5 :: nat], w))
     (\<lambda>n xs q w. (Inr (take (nat n) xs), w)) (u ''q'') 10 3 False
     \<lparr>chat_log = [], emb_log = [], sleeps = [], cache = []\<rparr> =
   (Inr [1, 2, 3, 4, 5], \<lparr>chat_log = [], emb_log = [], sleeps = [], cache = []\<rparr>) \<and>
   main_get_retrieved_nodes (\<lambda>q k w. (Inr [1, 2, 3, 4, 5 :: nat], w))
     (\<lambda>n xs q w. (Inr (take (nat n) xs), w)) (u ''q'') 10 3 False
     \<lparr>chat_log = [], emb_log = [], sleeps = [], cache = []\<rparr> =
   (Inr [1, 2, 3, 4, 5], \<lparr>chat_log = [], emb_log = [], sleeps = [], cache = []\<rparr>) \<and>
   \<not> int (length [1, 2, 3, 4, 5 :: nat]) \<le> 3"
  by (simp add: get_retrieved_nodes_def main_get_retrieved_nodes_def)


section \<open>Properties of the correction loop\<close>

lemma failure_text_Some:
  "failure_text loads r = Some m \<longleftrightarrow> (\<exists>e. try_parse loads r = Inl e \<and> caught e = Some m)"
  by (cases "try_parse loads r") (simp_all add: failure_text_def)

lemma parse_loop_success:
  "try_parse loads r = Inr j \<Longrightarrow> parse_loop loads svc llm a r w = (Inr j, w)"
  by (subst parse_loop.simps) simp

lemma parse_loop_last:
  assumes "failure_text loads r = Some m" and "4 \<le> a"
  shows "parse_loop loads svc llm a r w = (Inl (ValueError (failure_message m)), w)"
proof -
  from assms(1) obtain e where "try_parse loads r = Inl e" and "caught e = Some m"
    by (auto simp: failure_text_Some)
  with assms(2) show ?thesis
    by (subst parse_loop.simps) (simp add: max_attempts_def)
qed

lemma parse_loop_retry:
  assumes "failure_text loads r = Some m" and "a < 4"
    and "chat_log w = lg"
    and "chat_reply svc (length lg) (correction_request llm r m) = Inr r'"
  shows "parse_loop loads svc llm a r w =
         parse_loop loads svc llm (Suc a) r' (w\<lparr>chat_log := lg @ [correction_request llm r m]\<rparr>)"
proof -
  from assms(1) obtain e where e: "try_parse loads r = Inl e" "caught e = Some m"
    by (auto simp: failure_text_Some)
  have call: "analyze_consistency svc llm (correction_prompt r m) correction_system_prompt
      (Some (Fin (1 / 10))) (Some 1500) w =
      (Inr r', w\<lparr>chat_log := lg @ [correction_request llm r m]\<rparr>)"
    using assms(3,4) by (simp add: analyze_consistency_cases Let_def correction_request_def)
  show ?thesis
    by (subst parse_loop.simps) (simp add: e assms(2) max_attempts_def call)
qed

lemma check_facts_first:
  assumes "get_system_prompt fs (language self) = Inr sys"
    and "chat_reply svc (length (chat_log w)) (initial_request self sys text facts) = Inr r0"
  shows "check_facts loads fs svc self text facts w =
     (case parse_loop loads svc (llm_service self) 0 r0
             (w\<lparr>chat_log := chat_log w @ [initial_request self sys text facts]\<rparr>) of
        (Inl e, w'') \<Rightarrow> (Inl e, w'')
      | (Inr parsed_result, w'') \<Rightarrow> (parse_llm_response parsed_result facts, w''))"
  using assms
  by (simp add: check_facts_def Let_def analyze_consistency_cases initial_request_def)

lemma startswith_append: "startswith (p @ b) p"
  by (simp add: startswith_def)

lemma contains_prefix: "contains (p @ b) p"
  using startswith_append[of p b] by (cases "p @ b") simp_all

lemma contains_append: "contains (a @ p @ b) p"
proof (induction a)
  case Nil
  show ?case by (simp add: contains_prefix)
next
  case (Cons x a)
  then show ?case by simp
qed

lemma correction_prompt_contains:
  "contains (correction_prompt r m) r \<and> contains (correction_prompt r m) m"
proof
  show "contains (correction_prompt r m) r"
    unfolding correction_prompt_def by (rule contains_append)
  have "correction_prompt r m = (correction_head @ r @ correction_error) @ m @ correction_tail"
    by (simp add: correction_prompt_def)
  then show "contains (correction_prompt r m) m"
    by (simp only: contains_append)
qed

lemma failure_message_contains: "contains (failure_message m) m"
proof -
  have "failure_message m = (failure_head @ u ''5'' @ failure_mid) @ m @ []"
    by (simp add: failure_message_def)
  then show ?thesis by (simp only: contains_append)
qed

lemma correction_request_messages:
  "rq_messages (correction_request llm r m) =
     [(u ''system'', correction_system_prompt), (u ''user'', correction_prompt r m)] \<and>
   rq_temperature (correction_request llm r m) = Fin (1 / 10) \<and>
   rq_max_tokens (correction_request llm r m) = 1500"
  by (simp add: correction_request_def consistency_request_def float_or_def int_or_def
      float_truthy_def)

lemma check_facts_fourth_attempt:
  assumes "get_system_prompt fs (language self) = Inr sys"
    and "chat_reply svc (length (chat_log w)) (initial_request self sys text facts) = Inr r0"
    and "loads (clean_json_response r0) = Inl (JSONDecodeError m0)"
    and "chat_reply svc (length (chat_log w) + 1) (correction_request (llm_service self) r0 m0) =
         Inr r1"
    and "loads (clean_json_response r1) = Inl (JSONDecodeError m1)"
    and "chat_reply svc (length (chat_log w) + 2) (correction_request (llm_service self) r1 m1) =
         Inr r2"
    and "loads (clean_json_response r2) = Inl (JSONDecodeError m2)"
    and "chat_reply svc (length (chat_log w) + 3) (correction_request (llm_service self) r2 m2) =
         Inr r3"
    and "loads (clean_json_response r3) = Inr j0"
    and "validate_response j0 = Inr j"
  shows "check_facts loads fs svc self text facts w =
     (parse_llm_response j facts,
      w\<lparr>chat_log := chat_log w @
         [initial_request self sys text facts,
          correction_request (llm_service self) r0 m0,
          correction_request (llm_service self) r1 m1,
          correction_request (llm_service self) r2 m2]\<rparr>)"
proof -
  let ?llm = "llm_service self"
  let ?q = "initial_request self sys text facts"
  let ?c0 = "correction_request ?llm r0 m0"
  let ?c1 = "correction_request ?llm r1 m1"
  let ?c2 = "correction_request ?llm r2 m2"
  have f0: "failure_text loads r0 = Some m0"
    using assms(3) by (simp add: failure_text_def try_parse_def bnd_Inl)
  have f1: "failure_text loads r1 = Some m1"
    using assms(5) by (simp add: failure_text_def try_parse_def bnd_Inl)
  have f2: "failure_text loads r2 = Some m2"
    using assms(7) by (simp add: failure_text_def try_parse_def bnd_Inl)
  have ok: "try_parse loads r3 = Inr j"
    using assms(9,10) by (simp add: try_parse_def bnd_Inr)
  have s0: "parse_loop loads svc ?llm 0 r0 (w\<lparr>chat_log := chat_log w @ [?q]\<rparr>) =
      parse_loop loads svc ?llm (Suc 0) r1 (w\<lparr>chat_log := chat_log w @ [?q, ?c0]\<rparr>)"
    using parse_loop_retry[OF f0, of 0 "w\<lparr>chat_log := chat_log w @ [?q]\<rparr>"
        "chat_log w @ [?q]" svc ?llm r1] assms(4)
    by simp
  have s1: "parse_loop loads svc ?llm (Suc 0) r1 (w\<lparr>chat_log := chat_log w @ [?q, ?c0]\<rparr>) =
      parse_loop loads svc ?llm (Suc (Suc 0)) r2 (w\<lparr>chat_log := chat_log w @ [?q, ?c0, ?c1]\<rparr>)"
    using parse_loop_retry[OF f1, of "Suc 0" "w\<lparr>chat_log := chat_log w @ [?q, ?c0]\<rparr>"
        "chat_log w @ [?q, ?c0]" svc ?llm r2] assms(6)
    by simp
  have s2: "parse_loop loads svc ?llm (Suc (Suc 0)) r2
        (w\<lparr>chat_log := chat_log w @ [?q, ?c0, ?c1]\<rparr>) =
      parse_loop loads svc ?llm (Suc (Suc (Suc 0))) r3
        (w\<lparr>chat_log := chat_log w @ [?q, ?c0, ?c1, ?c2]\<rparr>)"
    using parse_loop_retry[OF f2, of "Suc (Suc 0)" "w\<lparr>chat_log := chat_log w @ [?q, ?c0, ?c1]\<rparr>"
        "chat_log w @ [?q, ?c0, ?c1]" svc ?llm r3] assms(8)
    by (simp add: eval_nat_numeral)
  have s3: "parse_loop loads svc ?llm (Suc (Suc (Suc 0))) r3
        (w\<lparr>chat_log := chat_log w @ [?q, ?c0, ?c1, ?c2]\<rparr>) =
      (Inr j, w\<lparr>chat_log := chat_log w @ [?q, ?c0, ?c1, ?c2]\<rparr>)"
    using ok by (rule parse_loop_success)
  show ?thesis
    unfolding check_facts_first[OF assms(1,2)] s0 s1 s2 s3 by simp
qed

lemma check_facts_exhausted:
  assumes "get_system_prompt fs (language self) = Inr sys"
    and "chat_reply svc (length (chat_log w)) (initial_request self sys text facts) = Inr r0"
    and f0: "failure_text loads r0 = Some m0"
    and "chat_reply svc (length (chat_log w) + 1) (correction_request (llm_service self) r0 m0) =
         Inr r1"
    and f1: "failure_text loads r1 = Some m1"
    and "chat_reply svc (length (chat_log w) + 2) (correction_request (llm_service self) r1 m1) =
         Inr r2"
    and f2: "failure_text loads r2 = Some m2"
    and "chat_reply svc (length (chat_log w) + 3) (correction_request (llm_service self) r2 m2) =
         Inr r3"
    and f3: "failure_text loads r3 = Some m3"
    and "chat_reply svc (length (chat_log w) + 4) (correction_request (llm_service self) r3 m3) =
         Inr r4"
    and f4: "failure_text loads r4 = Some m4"
  shows "check_facts loads fs svc self text facts w =
     (Inl (ValueError (failure_message m4)),
      w\<lparr>chat_log := chat_log w @
         [initial_request self sys text facts,
          correction_request (llm_service self) r0 m0,
          correction_request (llm_service self) r1 m1,
          correction_request (llm_service self) r2 m2,
          correction_request (llm_service self) r3 m3]\<rparr>)"
proof -
  let ?llm = "llm_service self"
  let ?q = "initial_request self sys text facts"
  let ?c0 = "correction_request ?llm r0 m0"
  let ?c1 = "correction_request ?llm r1 m1"
  let ?c2 = "correction_request ?llm r2 m2"
  let ?c3 = "correction_request ?llm r3 m3"
  have s0: "parse_loop loads svc ?llm 0 r0 (w\<lparr>chat_log := chat_log w @ [?q]\<rparr>) =
      parse_loop loads svc ?llm (Suc 0) r1 (w\<lparr>chat_log := chat_log w @ [?q, ?c0]\<rparr>)"
    using parse_loop_retry[OF f0, of 0 "w\<lparr>chat_log := chat_log w @ [?q]\<rparr>"
        "chat_log w @ [?q]" svc ?llm r1] assms(4)
    by simp
  have s1: "parse_loop loads svc ?llm (Suc 0) r1 (w\<lparr>chat_log := chat_log w @ [?q, ?c0]\<rparr>) =
      parse_loop loads svc ?llm (Suc (Suc 0)) r2 (w\<lparr>chat_log := chat_log w @ [?q, ?c0, ?c1]\<rparr>)"
    using parse_loop_retry[OF f1, of "Suc 0" "w\<lparr>chat_log := chat_log w @ [?q, ?c0]\<rparr>"
        "chat_log w @ [?q, ?c0]" svc ?llm r2] assms(6)
    by simp
  have s2: "parse_loop loads svc ?llm (Suc (Suc 0)) r2
        (w\<lparr>chat_log := chat_log w @ [?q, ?c0, ?c1]\<rparr>) =
      parse_loop loads svc ?llm (Suc (Suc (Suc 0))) r3
        (w\<lparr>chat_log := chat_log w @ [?q, ?c0, ?c1, ?c2]\<rparr>)"
    using parse_loop_retry[OF f2, of "Suc (Suc 0)" "w\<lparr>chat_log := chat_log w @ [?q, ?c0, ?c1]\<rparr>"
        "chat_log w @ [?q, ?c0, ?c1]" svc ?llm r3] assms(8)
    by (simp add: eval_nat_numeral)
  have s3: "parse_loop loads svc ?llm (Suc (Suc (Suc 0))) r3
        (w\<lparr>chat_log := chat_log w @ [?q, ?c0, ?c1, ?c2]\<rparr>) =
      parse_loop loads svc ?llm (Suc (Suc (Suc (Suc 0)))) r4
        (w\<lparr>chat_log := chat_log w @ [?q, ?c0, ?c1, ?c2, ?c3]\<rparr>)"
    using parse_loop_retry[OF f3, of "Suc (Suc (Suc 0))"
        "w\<lparr>chat_log := chat_log w @ [?q, ?c0, ?c1, ?c2]\<rparr>"
        "chat_log w @ [?q, ?c0, ?c1, ?c2]" svc ?llm r4] assms(10)
    by (simp add: eval_nat_numeral)
  have s4: "parse_loop loads svc ?llm (Suc (Suc (Suc (Suc 0)))) r4
        (w\<lparr>chat_log := chat_log w @ [?q, ?c0, ?c1, ?c2, ?c3]\<rparr>) =
      (Inl (ValueError (failure_message m4)),
       w\<lparr>chat_log := chat_log w @ [?q, ?c0, ?c1, ?c2, ?c3]\<rparr>)"
    using f4 by (rule parse_loop_last) simp
  show ?thesis
    unfolding check_facts_first[OF assms(1,2)] s0 s1 s2 s3 s4 by simp
qed

lemma parse_llm_response_fields:
  assumes "parse_llm_response response facts = Inr v"
  shows "py_getitem response (u ''has_conflicts'') = Inr (has_conflicts v)"
    and "py_getitem response (u ''has_supporting_facts'') = Inr (has_supporting_facts v)"
    and "py_getitem response (u ''inconsistencies'') = Inr (inconsistencies v)"
    and "py_getitem response (u ''supporting_facts'') = Inr (supporting_facts v)"
    and "py_getitem response (u ''confidence'') = Inr (confidence v)"
    and "py_getitem response (u ''explanation'') = Inr (explanation v)"
    and "relevant_facts v = facts"
  using assms
  by (auto simp: parse_llm_response_def bnd_eq_Inr simp del: py_getitem.simps)

lemma validate_response_keeps:
  assumes "validate_response r = Inr r'"
  shows "py_getitem r' (u ''confidence'') = py_getitem r (u ''confidence'')"
    and "py_getitem r' (u ''explanation'') = py_getitem r (u ''explanation'')"
proof -
  from validate_response_Inr[OF assms]
  obtain kvs incs' sups' kvs1 kvs2 kvs3 where
    r: "r = JDict kvs"
    and k1: "kvs1 = AList.update (u ''inconsistencies'') (JList incs') kvs"
    and k2: "kvs2 = (if incs' = [] then AList.update (u ''has_conflicts'') (JBool False) kvs1
                     else kvs1)"
    and k3: "kvs3 = AList.update (u ''supporting_facts'') (JList sups') kvs2"
    and r': "r' = JDict (if sups' = []
                         then AList.update (u ''has_supporting_facts'') (JBool False) kvs3
                         else kvs3)"
    by blast
  let ?kvs4 = "if sups' = [] then AList.update (u ''has_supporting_facts'') (JBool False) kvs3
               else kvs3"
  have "map_of ?kvs4 (u ''confidence'') = map_of kvs (u ''confidence'')"
    and "map_of ?kvs4 (u ''explanation'') = map_of kvs (u ''explanation'')"
    by (simp_all add: k1 k2 k3 update_conv' key_distinct key_distinct[symmetric])
  then show "py_getitem r' (u ''confidence'') = py_getitem r (u ''confidence'')"
    and "py_getitem r' (u ''explanation'') = py_getitem r (u ''explanation'')"
    by (simp_all add: r r')
qed

text \<open>
  Claim C3. The system prompt is read, the model's first three answers make
  \<open>json.loads\<close> raise \<open>JSONDecodeError\<close> and its fourth answer parses to a dict \<open>j0\<close>
  that validation accepts and leaves as \<open>j\<close>. Then \<open>check_facts\<close> succeeds with a
  verdict, after the first request and exactly three correction requests, each for the
  answer and the error text of the round before. Every field of the verdict is read from
  the validated fourth answer \<open>j\<close>, and so comes from the fourth answer \<open>j0\<close>: its
  confidence and explanation are those of \<open>j0\<close>, its lists are the filtered lists of
  \<open>j0\<close>, its flags are the flags of \<open>j0\<close> where the filtered list is not empty, and
  its relevant facts are the facts given to the call. The user message of every correction
  request contains the answer and the error text that it is made for.
\<close>

theorem check_facts_succeeds_at_fourth_attempt:
  assumes "get_system_prompt fs (language self) = Inr sys"
    and "chat_reply svc (length (chat_log w)) (initial_request self sys text facts) = Inr r0"
    and "loads (clean_json_response r0) = Inl (JSONDecodeError m0)"
    and "chat_reply svc (length (chat_log w) + 1) (correction_request (llm_service self) r0 m0) =
         Inr r1"
    and "loads (clean_json_response r1) = Inl (JSONDecodeError m1)"
    and "chat_reply svc (length (chat_log w) + 2) (correction_request (llm_service self) r1 m1) =
         Inr r2"
    and "loads (clean_json_response r2) = Inl (JSONDecodeError m2)"
    and "chat_reply svc (length (chat_log w) + 3) (correction_request (llm_service self) r2 m2) =
         Inr r3"
    and "loads (clean_json_response r3) = Inr j0"
    and "validate_response j0 = Inr j"
  shows "(\<exists>v.
       check_facts loads fs svc self text facts w =
         (Inr v,
          w\<lparr>chat_log := chat_log w @
             [initial_request self sys text facts,
              correction_request (llm_service self) r0 m0,
              correction_request (llm_service self) r1 m1,
              correction_request (llm_service self) r2 m2]\<rparr>) \<and>
       parse_llm_response j facts = Inr v \<and>
       relevant_facts v = facts \<and>
       py_getitem j (u ''has_conflicts'') = Inr (has_conflicts v) \<and>
       py_getitem j (u ''has_supporting_facts'') = Inr (has_supporting_facts v) \<and>
       py_getitem j (u ''inconsistencies'') = Inr (inconsistencies v) \<and>
       py_getitem j (u ''supporting_facts'') = Inr (supporting_facts v) \<and>
       py_getitem j (u ''confidence'') = Inr (confidence v) \<and>
       py_getitem j (u ''explanation'') = Inr (explanation v) \<and>
       py_getitem j0 (u ''confidence'') = Inr (confidence v) \<and>
       py_getitem j0 (u ''explanation'') = Inr (explanation v) \<and>
       (\<exists>hc0 hs0 incs0 sups0 incs sups.
          py_getitem j0 (u ''has_conflicts'') = Inr (JBool hc0) \<and>
          py_getitem j0 (u ''has_supporting_facts'') = Inr (JBool hs0) \<and>
          py_getitem j0 (u ''inconsistencies'') = Inr (JList incs0) \<and>
          py_getitem j0 (u ''supporting_facts'') = Inr (JList sups0) \<and>
          filter_facts incs0 = Inr incs \<and> filter_facts sups0 = Inr sups \<and>
          inconsistencies v = JList incs \<and> supporting_facts v = JList sups \<and>
          has_conflicts v = JBool (hc0 \<and> incs \<noteq> []) \<and>
          has_supporting_facts v = JBool (hs0 \<and> sups \<noteq> []))) \<and>
     (\<forall>r m. rq_messages (correction_request (llm_service self) r m) =
              [(u ''system'', correction_system_prompt), (u ''user'', correction_prompt r m)] \<and>
            contains (correction_prompt r m) r \<and> contains (correction_prompt r m) m)"
proof -
  from verdict_flags_aux[OF assms(10), of facts]
  obtain v hc0 hs0 incs0 sups0 incs sups where
    p: "parse_llm_response j facts = Inr v"
    and o: "py_getitem j0 (u ''has_conflicts'') = Inr (JBool hc0)"
      "py_getitem j0 (u ''has_supporting_facts'') = Inr (JBool hs0)"
      "py_getitem j0 (u ''inconsistencies'') = Inr (JList incs0)"
      "py_getitem j0 (u ''supporting_facts'') = Inr (JList sups0)"
      "filter_facts incs0 = Inr incs" "filter_facts sups0 = Inr sups"
      "inconsistencies v = JList incs" "supporting_facts v = JList sups"
      "has_conflicts v = JBool (hc0 \<and> incs \<noteq> [])"
      "has_supporting_facts v = JBool (hs0 \<and> sups \<noteq> [])"
    by blast
  note f = parse_llm_response_fields[OF p]
  note k = validate_response_keeps[OF assms(10)]
  have c: "check_facts loads fs svc self text facts w =
         (Inr v,
          w\<lparr>chat_log := chat_log w @
             [initial_request self sys text facts,
              correction_request (llm_service self) r0 m0,
              correction_request (llm_service self) r1 m1,
              correction_request (llm_service self) r2 m2]\<rparr>)"
    using check_facts_fourth_attempt[OF assms] p by simp
  have k0: "py_getitem j0 (u ''confidence'') = Inr (confidence v)"
    "py_getitem j0 (u ''explanation'') = Inr (explanation v)"
    using f(5,6) k by simp_all
  have fl: "\<exists>hc0 hs0 incs0 sups0 incs sups.
          py_getitem j0 (u ''has_conflicts'') = Inr (JBool hc0) \<and>
          py_getitem j0 (u ''has_supporting_facts'') = Inr (JBool hs0) \<and>
          py_getitem j0 (u ''inconsistencies'') = Inr (JList incs0) \<and>
          py_getitem j0 (u ''supporting_facts'') = Inr (JList sups0) \<and>
          filter_facts incs0 = Inr incs \<and> filter_facts sups0 = Inr sups \<and>
          inconsistencies v = JList incs \<and> supporting_facts v = JList sups \<and>
          has_conflicts v = JBool (hc0 \<and> incs \<noteq> []) \<and>
          has_supporting_facts v = JBool (hs0 \<and> sups \<noteq> [])"
    using o by blast
  have corr: "\<forall>r m. rq_messages (correction_request (llm_service self) r m) =
              [(u ''system'', correction_system_prompt), (u ''user'', correction_prompt r m)] \<and>
            contains (correction_prompt r m) r \<and> contains (correction_prompt r m) m"
    using correction_prompt_contains correction_request_messages by blast
  show ?thesis
    by (intro conjI exI[of _ v]) (fact c p f k0 fl corr)+
qed

theorem check_facts_succeeds_at_fourth_attempt_witness:
  "check_facts
     (\<lambda>s. if s = u ''fine'' then Inr (JDict [(u ''has_conflicts'', JBool True), (u ''has_supporting_facts'', JBool True),
          (u ''inconsistencies'',
             JList [JDict [(u ''statement'', JStr (u ''signed in 1991'')),
               (u ''fact'', JStr (u ''signed in 1992'')),
               (u ''explanation'', JStr (u ''years differ''))]]),
          (u ''supporting_facts'',
             JList [JDict [(u ''statement'', JStr (u ''signed'')), (u ''fact'', JStr []),
               (u ''explanation'', JStr (u ''no fact''))]]),
          (u ''confidence'', JFloat (Fin (9 / 10))),
          (u ''explanation'', JStr (u ''conflict''))])
        else Inl (JSONDecodeError (u ''bad'')))
     (Map.empty(u ''prompts/system_prompt_eng.txt'' \<mapsto> u ''check''))
     \<lparr>chat_reply = (\<lambda>n rq. if n < 3 then Inr (u ''not json'') else Inr (u ''fine'')),
        emb_reply = (\<lambda>n t. Inr [])\<rparr>
     \<lparr>llm_service = (YandexCloudLLM_init (u ''b1g'') (u ''yandexgpt-lite'') (u ''gpt'')
          (Fin (1 / 10)) 1000 30),
        config = (Fin (1 / 10), 1000), language = u ''en''\<rparr>
     (u ''claim'') [u ''fact'']
     \<lparr>chat_log = [], emb_log = [], sleeps = [], cache = []\<rparr> =
   (Inr \<lparr>has_conflicts = JBool True, has_supporting_facts = JBool False,
         inconsistencies =
           JList [JDict [(u ''statement'', JStr (u ''signed in 1991'')),
               (u ''fact'', JStr (u ''signed in 1992'')),
               (u ''explanation'', JStr (u ''years differ''))]],
         supporting_facts = JList [], confidence = JFloat (Fin (9 / 10)),
         relevant_facts = [u ''fact''], explanation = JStr (u ''conflict'')\<rparr>,
    \<lparr>chat_log =
       [initial_request
          \<lparr>llm_service = (YandexCloudLLM_init (u ''b1g'') (u ''yandexgpt-lite'') (u ''gpt'')
          (Fin (1 / 10)) 1000 30),
        config = (Fin (1 / 10), 1000), language = u ''en''\<rparr>
          (u ''check'') (u ''claim'') [u ''fact''],
        correction_request (YandexCloudLLM_init (u ''b1g'') (u ''yandexgpt-lite'') (u ''gpt'')
          (Fin (1 / 10)) 1000 30)
          (u ''not json'') (u ''bad''),
        correction_request (YandexCloudLLM_init (u ''b1g'') (u ''yandexgpt-lite'') (u ''gpt'')
          (Fin (1 / 10)) 1000 30)
          (u ''not json'') (u ''bad''),
        correction_request (YandexCloudLLM_init (u ''b1g'') (u ''yandexgpt-lite'') (u ''gpt'')
          (Fin (1 / 10)) 1000 30)
          (u ''not json'') (u ''bad'')],
     emb_log = [], sleeps = [], cache = []\<rparr>)"
proof -
  have sys: "get_system_prompt (Map.empty(u ''prompts/system_prompt_eng.txt'' \<mapsto> u ''check''))
      (language \<lparr>llm_service = (YandexCloudLLM_init (u ''b1g'') (u ''yandexgpt-lite'') (u ''gpt'')
          (Fin (1 / 10)) 1000 30),
        config = (Fin (1 / 10), 1000), language = u ''en''\<rparr>) = Inr (u ''check'')"
    by (simp add: get_system_prompt_def Let_def u_def)
  have c_bad: "clean_json_response (u ''not json'') = u ''not json''"
    by (simp add: clean_json_response_def Let_def strip_def lstrip_def rstrip_def
        startswith_def endswith_def u_def is_space_def)
  have c_fine: "clean_json_response (u ''fine'') = u ''fine''"
    by (simp add: clean_json_response_def Let_def strip_def lstrip_def rstrip_def
        startswith_def endswith_def u_def is_space_def)
  have ne: "u ''not json'' \<noteq> u ''fine''"
    by (simp add: u_def)
  have valid: "validate_response
      (JDict [(u ''has_conflicts'', JBool True), (u ''has_supporting_facts'', JBool True),
          (u ''inconsistencies'',
             JList [JDict [(u ''statement'', JStr (u ''signed in 1991'')),
               (u ''fact'', JStr (u ''signed in 1992'')),
               (u ''explanation'', JStr (u ''years differ''))]]),
          (u ''supporting_facts'',
             JList [JDict [(u ''statement'', JStr (u ''signed'')), (u ''fact'', JStr []),
               (u ''explanation'', JStr (u ''no fact''))]]),
          (u ''confidence'', JFloat (Fin (9 / 10))),
          (u ''explanation'', JStr (u ''conflict''))]) =
    Inr (JDict [(u ''has_conflicts'', JBool True), (u ''has_supporting_facts'', JBool False),
          (u ''inconsistencies'',
             JList [JDict [(u ''statement'', JStr (u ''signed in 1991'')),
               (u ''fact'', JStr (u ''signed in 1992'')),
               (u ''explanation'', JStr (u ''years differ''))]]),
          (u ''supporting_facts'', JList []),
          (u ''confidence'', JFloat (Fin (9 / 10))),
          (u ''explanation'', JStr (u ''conflict''))])"
    by (simp add: validate_response_def required_fields_def element_fields_def bnd_def u_def)
  have verdict: "parse_llm_response
      (JDict [(u ''has_conflicts'', JBool True), (u ''has_supporting_facts'', JBool False),
          (u ''inconsistencies'',
             JList [JDict [(u ''statement'', JStr (u ''signed in 1991'')),
               (u ''fact'', JStr (u ''signed in 1992'')),
               (u ''explanation'', JStr (u ''years differ''))]]),
          (u ''supporting_facts'', JList []),
          (u ''confidence'', JFloat (Fin (9 / 10))),
          (u ''explanation'', JStr (u ''conflict''))]) [u ''fact''] =
    Inr \<lparr>has_conflicts = JBool True, has_supporting_facts = JBool False,
         inconsistencies =
           JList [JDict [(u ''statement'', JStr (u ''signed in 1991'')),
               (u ''fact'', JStr (u ''signed in 1992'')),
               (u ''explanation'', JStr (u ''years differ''))]],
         supporting_facts = JList [], confidence = JFloat (Fin (9 / 10)),
         relevant_facts = [u ''fact''], explanation = JStr (u ''conflict'')\<rparr>"
    by (simp add: parse_llm_response_def bnd_def u_def)
  from check_facts_succeeds_at_fourth_attempt[
      where loads = "(\<lambda>s. if s = u ''fine'' then Inr (JDict [(u ''has_conflicts'', JBool True), (u ''has_supporting_facts'', JBool True),
          (u ''inconsistencies'',
             JList [JDict [(u ''statement'', JStr (u ''signed in 1991'')),
               (u ''fact'', JStr (u ''signed in 1992'')),
               (u ''explanation'', JStr (u ''years differ''))]]),
          (u ''supporting_facts'',
             JList [JDict [(u ''statement'', JStr (u ''signed'')), (u ''fact'', JStr []),
               (u ''explanation'', JStr (u ''no fact''))]]),
          (u ''confidence'', JFloat (Fin (9 / 10))),
          (u ''explanation'', JStr (u ''conflict''))])
        else Inl (JSONDecodeError (u ''bad'')))"
        and fs = "(Map.empty(u ''prompts/system_prompt_eng.txt'' \<mapsto> u ''check''))"
        and svc = "\<lparr>chat_reply = (\<lambda>n rq. if n < 3 then Inr (u ''not json'') else Inr (u ''fine'')),
        emb_reply = (\<lambda>n t. Inr [])\<rparr>"
        and self = "\<lparr>llm_service = (YandexCloudLLM_init (u ''b1g'') (u ''yandexgpt-lite'') (u ''gpt'')
          (Fin (1 / 10)) 1000 30),
        config = (Fin (1 / 10), 1000), language = u ''en''\<rparr>"
        and w = "\<lparr>chat_log = [], emb_log = [], sleeps = [], cache = []\<rparr>"
        and sys = "u ''check''" and ?text = "u ''claim''" and facts = "[u ''fact'']"
        and ?r0.0 = "u ''not json''" and ?r1.0 = "u ''not json''" and ?r2.0 = "u ''not json''"
        and ?r3.0 = "u ''fine''" and ?m0.0 = "u ''bad''" and ?m1.0 = "u ''bad''"
        and ?m2.0 = "u ''bad''"
        and ?j0.0 = "(JDict [(u ''has_conflicts'', JBool True), (u ''has_supporting_facts'', JBool True),
          (u ''inconsistencies'',
             JList [JDict [(u ''statement'', JStr (u ''signed in 1991'')),
               (u ''fact'', JStr (u ''signed in 1992'')),
               (u ''explanation'', JStr (u ''years differ''))]]),
          (u ''supporting_facts'',
             JList [JDict [(u ''statement'', JStr (u ''signed'')), (u ''fact'', JStr []),
               (u ''explanation'', JStr (u ''no fact''))]]),
          (u ''confidence'', JFloat (Fin (9 / 10))),
          (u ''explanation'', JStr (u ''conflict''))])"
        and j = "(JDict [(u ''has_conflicts'', JBool True), (u ''has_supporting_facts'', JBool False),
          (u ''inconsistencies'',
             JList [JDict [(u ''statement'', JStr (u ''signed in 1991'')),
               (u ''fact'', JStr (u ''signed in 1992'')),
               (u ''explanation'', JStr (u ''years differ''))]]),
          (u ''supporting_facts'', JList []),
          (u ''confidence'', JFloat (Fin (9 / 10))),
          (u ''explanation'', JStr (u ''conflict''))])",
      OF sys]
  obtain v where
    "check_facts
       (\<lambda>s. if s = u ''fine'' then Inr (JDict [(u ''has_conflicts'', JBool True), (u ''has_supporting_facts'', JBool True),
          (u ''inconsistencies'',
             JList [JDict [(u ''statement'', JStr (u ''signed in 1991'')),
               (u ''fact'', JStr (u ''signed in 1992'')),
               (u ''explanation'', JStr (u ''years differ''))]]),
          (u ''supporting_facts'',
             JList [JDict [(u ''statement'', JStr (u ''signed'')), (u ''fact'', JStr []),
               (u ''explanation'', JStr (u ''no fact''))]]),
          (u ''confidence'', JFloat (Fin (9 / 10))),
          (u ''explanation'', JStr (u ''conflict''))])
        else Inl (JSONDecodeError (u ''bad'')))
       (Map.empty(u ''prompts/system_prompt_eng.txt'' \<mapsto> u ''check''))
       \<lparr>chat_reply = (\<lambda>n rq. if n < 3 then Inr (u ''not json'') else Inr (u ''fine'')),
        emb_reply = (\<lambda>n t. Inr [])\<rparr>
       \<lparr>llm_service = (YandexCloudLLM_init (u ''b1g'') (u ''yandexgpt-lite'') (u ''gpt'')
          (Fin (1 / 10)) 1000 30),
        config = (Fin (1 / 10), 1000), language = u ''en''\<rparr>
       (u ''claim'') [u ''fact'']
       \<lparr>chat_log = [], emb_log = [], sleeps = [], cache = []\<rparr> =
     (Inr v,
      \<lparr>chat_log =
         [initial_request
            \<lparr>llm_service = (YandexCloudLLM_init (u ''b1g'') (u ''yandexgpt-lite'') (u ''gpt'')
          (Fin (1 / 10)) 1000 30),
        config = (Fin (1 / 10), 1000), language = u ''en''\<rparr>
            (u ''check'') (u ''claim'') [u ''fact''],
          correction_request (YandexCloudLLM_init (u ''b1g'') (u ''yandexgpt-lite'') (u ''gpt'')
          (Fin (1 / 10)) 1000 30)
            (u ''not json'') (u ''bad''),
          correction_request (YandexCloudLLM_init (u ''b1g'') (u ''yandexgpt-lite'') (u ''gpt'')
          (Fin (1 / 10)) 1000 30)
            (u ''not json'') (u ''bad''),
          correction_request (YandexCloudLLM_init (u ''b1g'') (u ''yandexgpt-lite'') (u ''gpt'')
          (Fin (1 / 10)) 1000 30)
            (u ''not json'') (u ''bad'')],
       emb_log = [], sleeps = [], cache = []\<rparr>)"
    and "parse_llm_response
      (JDict [(u ''has_conflicts'', JBool True), (u ''has_supporting_facts'', JBool False),
          (u ''inconsistencies'',
             JList [JDict [(u ''statement'', JStr (u ''signed in 1991'')),
               (u ''fact'', JStr (u ''signed in 1992'')),
               (u ''explanation'', JStr (u ''years differ''))]]),
          (u ''supporting_facts'', JList []),
          (u ''confidence'', JFloat (Fin (9 / 10))),
          (u ''explanation'', JStr (u ''conflict''))]) [u ''fact''] = Inr v"
    by (simp add: c_bad c_fine ne valid) blast
  with verdict show ?thesis by simp
qed

text \<open>
  Claim C2, as amended. The system prompt is read and each of the five answers of the
  model (the first one and the answers to four correction calls) fails in parsing or
  validation with an exception that the loop handles. Then \<open>check_facts\<close> has sent the
  first request and exactly four correction requests, one before each retry, and raises
  \<open>ValueError\<close> with the message of line 119, which contains the error text of the fifth
  attempt. The message is built from that error text alone.
\<close>

theorem check_facts_fails_after_five_attempts:
  assumes "get_system_prompt fs (language self) = Inr sys"
    and "chat_reply svc (length (chat_log w)) (initial_request self sys text facts) = Inr r0"
    and "failure_text loads r0 = Some m0"
    and "chat_reply svc (length (chat_log w) + 1) (correction_request (llm_service self) r0 m0) =
         Inr r1"
    and "failure_text loads r1 = Some m1"
    and "chat_reply svc (length (chat_log w) + 2) (correction_request (llm_service self) r1 m1) =
         Inr r2"
    and "failure_text loads r2 = Some m2"
    and "chat_reply svc (length (chat_log w) + 3) (correction_request (llm_service self) r2 m2) =
         Inr r3"
    and "failure_text loads r3 = Some m3"
    and "chat_reply svc (length (chat_log w) + 4) (correction_request (llm_service self) r3 m3) =
         Inr r4"
    and "failure_text loads r4 = Some m4"
  shows "check_facts loads fs svc self text facts w =
     (Inl (ValueError (failure_message m4)),
      w\<lparr>chat_log := chat_log w @
         [initial_request self sys text facts,
          correction_request (llm_service self) r0 m0,
          correction_request (llm_service self) r1 m1,
          correction_request (llm_service self) r2 m2,
          correction_request (llm_service self) r3 m3]\<rparr>) \<and>
     failure_message m4 = failure_head @ u ''5'' @ failure_mid @ m4 \<and>
     contains (failure_message m4) m4"
  using check_facts_exhausted[OF assms] failure_message_contains[of m4]
  by (simp add: failure_message_def)

theorem check_facts_fails_after_five_attempts_witness:
  "check_facts
     (\<lambda>s. Inr (JDict []))
     (Map.empty(u ''prompts/system_prompt_eng.txt'' \<mapsto> u ''check''))
     \<lparr>chat_reply = (\<lambda>n rq. Inr (u ''{}'')), emb_reply = (\<lambda>n t. Inr [])\<rparr>
     \<lparr>llm_service = (YandexCloudLLM_init (u ''b1g'') (u ''yandexgpt-lite'') (u ''gpt'')
          (Fin (1 / 10)) 1000 30),
        config = (Fin (1 / 10), 1000), language = u ''en''\<rparr>
     (u ''claim'') [u ''fact'']
     \<lparr>chat_log = [], emb_log = [], sleeps = [], cache = []\<rparr> =
   (Inl (ValueError (failure_message msg_missing_fields)),
    \<lparr>chat_log =
       [initial_request
          \<lparr>llm_service = (YandexCloudLLM_init (u ''b1g'') (u ''yandexgpt-lite'') (u ''gpt'')
          (Fin (1 / 10)) 1000 30),
        config = (Fin (1 / 10), 1000), language = u ''en''\<rparr>
          (u ''check'') (u ''claim'') [u ''fact''],
        correction_request (YandexCloudLLM_init (u ''b1g'') (u ''yandexgpt-lite'') (u ''gpt'')
          (Fin (1 / 10)) 1000 30)
          (u ''{}'') msg_missing_fields,
        correction_request (YandexCloudLLM_init (u ''b1g'') (u ''yandexgpt-lite'') (u ''gpt'')
          (Fin (1 / 10)) 1000 30)
          (u ''{}'') msg_missing_fields,
        correction_request (YandexCloudLLM_init (u ''b1g'') (u ''yandexgpt-lite'') (u ''gpt'')
          (Fin (1 / 10)) 1000 30)
          (u ''{}'') msg_missing_fields,
        correction_request (YandexCloudLLM_init (u ''b1g'') (u ''yandexgpt-lite'') (u ''gpt'')
          (Fin (1 / 10)) 1000 30)
          (u ''{}'') msg_missing_fields],
     emb_log = [], sleeps = [], cache = []\<rparr>)"
proof -
  have sys: "get_system_prompt (Map.empty(u ''prompts/system_prompt_eng.txt'' \<mapsto> u ''check''))
      (language \<lparr>llm_service = (YandexCloudLLM_init (u ''b1g'') (u ''yandexgpt-lite'') (u ''gpt'')
          (Fin (1 / 10)) 1000 30),
        config = (Fin (1 / 10), 1000), language = u ''en''\<rparr>) = Inr (u ''check'')"
    by (simp add: get_system_prompt_def Let_def u_def)
  have f: "failure_text (\<lambda>s. Inr (JDict [])) r = Some msg_missing_fields" for r
    by (simp add: failure_text_def try_parse_def bnd_def validate_response_def
        required_fields_def)
  from check_facts_fails_after_five_attempts[
      where loads = "(\<lambda>s. Inr (JDict []))"
        and fs = "(Map.empty(u ''prompts/system_prompt_eng.txt'' \<mapsto> u ''check''))"
        and svc = "\<lparr>chat_reply = (\<lambda>n rq. Inr (u ''{}'')), emb_reply = (\<lambda>n t. Inr [])\<rparr>"
        and self = "\<lparr>llm_service = (YandexCloudLLM_init (u ''b1g'') (u ''yandexgpt-lite'') (u ''gpt'')
          (Fin (1 / 10)) 1000 30),
        config = (Fin (1 / 10), 1000), language = u ''en''\<rparr>"
        and w = "\<lparr>chat_log = [], emb_log = [], sleeps = [], cache = []\<rparr>"
        and sys = "u ''check''" and ?text = "u ''claim''" and facts = "[u ''fact'']"
        and ?r0.0 = "u ''{}''" and ?r1.0 = "u ''{}''" and ?r2.0 = "u ''{}''"
        and ?r3.0 = "u ''{}''" and ?r4.0 = "u ''{}''",
      OF sys _ f _ f _ f _ f _ f]
  show ?thesis by simp
qed

text \<open>
  Claim C2 as stated fails: the model answers \<open>not json\<close> five times and \<open>json.loads\<close>
  rejects it each time with the text \<open>bad\<close>. \<open>check_facts\<close> raises \<open>ValueError\<close>
  after five requests, and the message of the exception does not contain the last raw
  answer.
\<close>

theorem check_facts_failure_counterexample:
  "fst (check_facts
     (\<lambda>s. Inl (JSONDecodeError (u ''bad'')))
     (Map.empty(u ''prompts/system_prompt_eng.txt'' \<mapsto> u ''check''))
     \<lparr>chat_reply = (\<lambda>n rq. Inr (u ''not json'')), emb_reply = (\<lambda>n t. Inr [])\<rparr>
     \<lparr>llm_service = (YandexCloudLLM_init (u ''b1g'') (u ''yandexgpt-lite'') (u ''gpt'')
          (Fin (1 / 10)) 1000 30),
        config = (Fin (1 / 10), 1000), language = u ''en''\<rparr>
     (u ''claim'') [u ''fact'']
     \<lparr>chat_log = [], emb_log = [], sleeps = [], cache = []\<rparr>) =
   Inl (ValueError (failure_message (u ''bad''))) \<and>
   length (chat_log (snd (check_facts
     (\<lambda>s. Inl (JSONDecodeError (u ''bad'')))
     (Map.empty(u ''prompts/system_prompt_eng.txt'' \<mapsto> u ''check''))
     \<lparr>chat_reply = (\<lambda>n rq. Inr (u ''not json'')), emb_reply = (\<lambda>n t. Inr [])\<rparr>
     \<lparr>llm_service = (YandexCloudLLM_init (u ''b1g'') (u ''yandexgpt-lite'') (u ''gpt'')
          (Fin (1 / 10)) 1000 30),
        config = (Fin (1 / 10), 1000), language = u ''en''\<rparr>
     (u ''claim'') [u ''fact'']
     \<lparr>chat_log = [], emb_log = [], sleeps = [], cache = []\<rparr>))) = 5 \<and>
   \<not> contains (failure_message (u ''bad'')) (u ''not json'')"
proof -
  have sys: "get_system_prompt (Map.empty(u ''prompts/system_prompt_eng.txt'' \<mapsto> u ''check''))
      (language \<lparr>llm_service = (YandexCloudLLM_init (u ''b1g'') (u ''yandexgpt-lite'') (u ''gpt'')
          (Fin (1 / 10)) 1000 30),
        config = (Fin (1 / 10), 1000), language = u ''en''\<rparr>) = Inr (u ''check'')"
    by (simp add: get_system_prompt_def Let_def u_def)
  have f: "failure_text (\<lambda>s. Inl (JSONDecodeError (u ''bad''))) r = Some (u ''bad'')" for r
    by (simp add: failure_text_def try_parse_def bnd_def)
  have nc: "\<not> contains (failure_message (u ''bad'')) (u ''not json'')"
    by (simp add: failure_message_def failure_head_def failure_mid_def u_def startswith_def)
  from check_facts_exhausted[
      where loads = "(\<lambda>s. Inl (JSONDecodeError (u ''bad'')))"
        and fs = "(Map.empty(u ''prompts/system_prompt_eng.txt'' \<mapsto> u ''check''))"
        and svc = "\<lparr>chat_reply = (\<lambda>n rq. Inr (u ''not json'')), emb_reply = (\<lambda>n t. Inr [])\<rparr>"
        and self = "\<lparr>llm_service = (YandexCloudLLM_init (u ''b1g'') (u ''yandexgpt-lite'') (u ''gpt'')
          (Fin (1 / 10)) 1000 30),
        config = (Fin (1 / 10), 1000), language = u ''en''\<rparr>"
        and w = "\<lparr>chat_log = [], emb_log = [], sleeps = [], cache = []\<rparr>"
        and sys = "u ''check''" and ?text = "u ''claim''" and facts = "[u ''fact'']"
        and ?r0.0 = "u ''not json''" and ?r1.0 = "u ''not json''" and ?r2.0 = "u ''not json''"
        and ?r3.0 = "u ''not json''" and ?r4.0 = "u ''not json''",
      OF sys _ f _ f _ f _ f _ f]
  show ?thesis by (simp add: nc)
qed

end
